theory Spec2Isabelle
  imports Complex_Main "HOL-Library.Word"
begin

section \<open>NtAction: wiring of the multi-group neutron objects\<close>

text \<open>
  A shallow embedding of \<^verbatim>\<open>src/actions/NtAction.C\<close>. The action owns no numerics:
  for the task it is run for, it walks the energy groups \<open>1 .. _num_groups\<close> and
  submits variables, kernels, boundary conditions, initial conditions and auxiliary
  objects to the problem. The calls it makes are recorded, in order, in a \<open>world\<close>.
\<close>

subsection \<open>Parameters\<close>

text \<open>The three choices of the \<^verbatim>\<open>MooseEnum vacuum_bc_type("marshak mark milne", "marshak")\<close>.\<close>

datatype vacuum_bc = marshak | mark | milne

text \<open>
  The parameters declared by \<^verbatim>\<open>NtAction::validParams\<close>. A parameter added with
  \<^verbatim>\<open>addRequiredParam\<close> or with a default always has a value, so that the test
  \<^verbatim>\<open>isParamValid("use_exp_form")\<close> is always true and the assignment it guards is
  written without it; a parameter added without a default is optional,
  \<^verbatim>\<open>isParamValid\<close> being \<open>\<noteq> None\<close>. \<^verbatim>\<open>unsigned int\<close> is a 32-bit word. \<^verbatim>\<open>Real\<close> values
  are only ever forwarded, never computed with. The parameter \<open>block\<close> comes from the base
  class's parameters.
\<close>

record config =
  num_precursor_groups :: "32 word"
  var_name_base :: string
  temperature :: "string list"
  pre_concs :: "string list option"
  temp_scaling :: "real option"
  num_groups :: "32 word"
  use_exp_form :: bool
  jac_test :: bool
  nt_ic_function :: "string option"
  vacuum_boundaries :: "string list option"
  vacuum_bc_type :: vacuum_bc
  create_temperature_var :: bool
  init_nts_from_file :: bool
  init_temperature_from_file :: bool
  dg_for_temperature :: bool
  eigen :: bool
  account_delayed :: bool
  sss2_input :: bool
  pre_blocks :: "string list option"
  eigenvalue_scaling :: real
  block :: "string list option"

definition isParamValid :: "'a option \<Rightarrow> bool" where
  "isParamValid p = (p \<noteq> None)"

subsection \<open>Object descriptors and the world they are submitted to\<close>

datatype pval =
    PBool bool
  | PUInt "32 word"
  | PReal real
  | PReals "real list"
  | PName string
  | PNames "string list"
  | PEnum string
  | PVacuumBC vacuum_bc

type_synonym params = "string \<rightharpoonup> pval"

datatype Order = FIRST
datatype FEFamily = LAGRANGE | L2_LAGRANGE
datatype FEType = FEType Order FEFamily

text \<open>
  One constructor for each call the action makes on the problem, on the nonlinear system
  or on its own base class (\<open>Action_addVariable\<close> is the inherited
  \<^verbatim>\<open>addVariable(var_name)\<close>).
\<close>

datatype call =
    Action_addVariable string
  | Problem_addVariable string string params
  | Problem_addAuxVariable string FEType "nat set option"
  | Problem_addKernel string string params
  | Problem_addAuxKernel string string params
  | Problem_addBoundaryCondition string string params
  | Problem_addInitialCondition string string params
  | System_addVariableToCopy string string string

record world =
  submitted :: "call list"
  exodus_file_restart :: bool

definition submit :: "call \<Rightarrow> world \<Rightarrow> world" where
  "submit d w = w\<lparr>submitted := submitted w @ [d]\<rparr>"

text \<open>
  Modelled from the spec: \<^verbatim>\<open>_app.setExodusFileRestart(bool)\<close> is the application's,
  not this file's; the spec gives it as the process-wide flag that enables restart-file
  reading.
\<close>

definition setExodusFileRestart :: "bool \<Rightarrow> world \<Rightarrow> world" where
  "setExodusFileRestart b w = w\<lparr>exodus_file_restart := b\<rparr>"

text \<open>
  What the action takes from the framework around it: the parameter schema of an object
  kind, the rule that copies one named parameter of the action into a schema, the
  variable type of a finite-element type, the names of libMesh's enumerators, and the
  subdomain ids of the action's blocks.
\<close>

record host =
  getValidParams :: "string \<Rightarrow> params"
  applyParameter :: "string \<Rightarrow> pval option \<Rightarrow> params \<Rightarrow> params"
  variableType :: "FEType \<Rightarrow> string"
  order_to_string :: "Order \<Rightarrow> string"
  family_to_string :: "FEFamily \<Rightarrow> string"
  getSubdomainIDs :: "string list option \<Rightarrow> nat set"

text \<open>The two \<^verbatim>\<open>mooseError\<close> sites of the file: the constructor's and the one of \<open>add_ic\<close>.\<close>

datatype error = ConfigurationError | ConflictingOptionError

type_synonym outcome = "(error \<times> world) + world"

subsection \<open>Names\<close>

text \<open>
  Modelled from the spec: \<^verbatim>\<open>Moose::stringify\<close> is the framework's; the spec's name rule
  is \<open>var_name_base + decimal(i)\<close>, no padding.
\<close>

definition digit_char :: "nat \<Rightarrow> char" where
  "digit_char d = char_of (48 + d)"

fun decimal :: "nat \<Rightarrow> string" where
  "decimal n = (if n < 10 then [digit_char n] else decimal (n div 10) @ [digit_char (n mod 10)])"

declare decimal.simps [simp del]

definition stringify :: "32 word \<Rightarrow> string" where
  "stringify op = decimal (unat op)"

text \<open>Reading a decimal numeral back, to say what \<open>decimal\<close> means.\<close>

definition digit_val :: "char \<Rightarrow> nat" where
  "digit_val c = of_char c - 48"

definition decimal_value :: "string \<Rightarrow> nat" where
  "decimal_value s = foldl (\<lambda>v c. 10 * v + digit_val c) 0 s"

subsection \<open>The action\<close>

text \<open>
  The object: its parameters and the three members the constructor copies out of them
  (\<^verbatim>\<open>_num_precursor_groups\<close>, \<^verbatim>\<open>_var_name_base\<close>, \<^verbatim>\<open>_num_groups\<close>).
\<close>

record nt_action =
  parameters :: config
  m_num_precursor_groups :: "32 word"
  m_var_name_base :: string
  m_num_groups :: "32 word"

definition init_members :: "config \<Rightarrow> nt_action" where
  "init_members ps =
     \<lparr>parameters = ps,
      m_num_precursor_groups = num_precursor_groups ps,
      m_var_name_base = var_name_base ps,
      m_num_groups = num_groups ps\<rparr>"

text \<open>Lines 80--88: the constructor, which either raises or yields the object.\<close>

definition NtAction :: "config \<Rightarrow> error + nt_action" where
  "NtAction ps =
     (let a = init_members ps
      in if \<not> isParamValid (pre_concs ps) \<and> account_delayed ps
         then Inl ConfigurationError
         else Inr a)"

text \<open>
  \<^verbatim>\<open>params.applySpecificParameters(parameters(), include)\<close>: each included name is
  handed, with the value the action has for it, to the host's copying rule. Only the
  two coupled variables are ever included.
\<close>

definition action_param :: "config \<Rightarrow> string \<Rightarrow> pval option" where
  "action_param ps name =
     (if name = ''temperature'' then Some (PNames (temperature ps))
      else if name = ''pre_concs'' then map_option PNames (pre_concs ps)
      else None)"

definition applySpecificParameters :: "host \<Rightarrow> config \<Rightarrow> string list \<Rightarrow> params \<Rightarrow> params" where
  "applySpecificParameters h common include ps =
     fold (\<lambda>name. applyParameter h name (action_param common name)) include ps"

definition set_block :: "string list option \<Rightarrow> params \<Rightarrow> params" where
  "set_block b ps = (case b of None \<Rightarrow> ps | Some bs \<Rightarrow> ps(''block'' \<mapsto> PNames bs))"

definition addNtKernel ::
  "host \<Rightarrow> nt_action \<Rightarrow> 32 word \<Rightarrow> string \<Rightarrow> string \<Rightarrow> string list \<Rightarrow> world \<Rightarrow> world" where
  "addNtKernel h a op var_name kernel_type all_var_names w =
     (let ps = getValidParams h kernel_type;
          ps = ps(''variable'' \<mapsto> PName var_name);
          ps = ps(''group_number'' \<mapsto> PUInt op);
          ps = set_block (block (parameters a)) ps;
          ps = ps(''use_exp_form'' \<mapsto> PBool (use_exp_form (parameters a)));
          ps = applySpecificParameters h (parameters a) [''temperature''] ps;
          ps = (if kernel_type = ''InScatter''
                then ps(''num_groups'' \<mapsto> PUInt (m_num_groups a),
                        ''sss2_input'' \<mapsto> PBool (sss2_input (parameters a)),
                        ''group_fluxes'' \<mapsto> PNames all_var_names)
                else ps);
          kernel_name = kernel_type @ ''_'' @ var_name
      in submit (Problem_addKernel kernel_type kernel_name ps) w)"

definition addCoupledFissionKernel ::
  "host \<Rightarrow> nt_action \<Rightarrow> 32 word \<Rightarrow> string \<Rightarrow> string list \<Rightarrow> world \<Rightarrow> world" where
  "addCoupledFissionKernel h a op var_name all_var_names w =
     (let ps = getValidParams h ''CoupledFissionKernel'';
          ps = ps(''variable'' \<mapsto> PName var_name);
          ps = ps(''group_number'' \<mapsto> PUInt op);
          ps = set_block (block (parameters a)) ps;
          ps = ps(''use_exp_form'' \<mapsto> PBool (use_exp_form (parameters a)));
          ps = applySpecificParameters h (parameters a) [''temperature''] ps;
          ps = ps(''num_groups'' \<mapsto> PUInt (m_num_groups a));
          ps = ps(''group_fluxes'' \<mapsto> PNames all_var_names);
          ps = ps(''account_delayed'' \<mapsto> PBool (account_delayed (parameters a)));
          ps = ps(''eigenvalue_scaling'' \<mapsto> PReal (eigenvalue_scaling (parameters a)));
          ps = (if eigen (parameters a)
                then ps(''extra_vector_tags'' \<mapsto> PNames [''eigen''])
                else ps);
          kernel_name = ''CoupledFissionKernel_'' @ var_name
      in submit (Problem_addKernel ''CoupledFissionKernel'' kernel_name ps) w)"

definition addDelayedNeutronSource ::
  "host \<Rightarrow> nt_action \<Rightarrow> 32 word \<Rightarrow> string \<Rightarrow> world \<Rightarrow> world" where
  "addDelayedNeutronSource h a op var_name w =
     (let ps = getValidParams h ''DelayedNeutronSource'';
          ps = ps(''variable'' \<mapsto> PName var_name);
          ps = ps(''group_number'' \<mapsto> PUInt op);
          ps = set_block (pre_blocks (parameters a)) ps;
          ps = ps(''use_exp_form'' \<mapsto> PBool (use_exp_form (parameters a)));
          ps = applySpecificParameters h (parameters a) [''temperature'', ''pre_concs''] ps;
          ps = ps(''num_precursor_groups'' \<mapsto> PUInt (m_num_precursor_groups a));
          kernel_name = ''DelayedNeutronSource_'' @ var_name
      in submit (Problem_addKernel ''DelayedNeutronSource'' kernel_name ps) w)"

subsection \<open>One pass of the loop over the groups\<close>

text \<open>Lines 104--114: restart of the group's field from an earlier output file.\<close>

definition restart_block :: "nt_action \<Rightarrow> string \<Rightarrow> string \<Rightarrow> world \<Rightarrow> world" where
  "restart_block a task var_name w =
     (if init_nts_from_file (parameters a)
      then (let w = (if task = ''check_copy_nodal_vars'' then setExodusFileRestart True w else w);
                w = (if task = ''copy_nodal_vars''
                     then submit (System_addVariableToCopy var_name var_name ''LATEST'') w
                     else w)
            in w)
      else w)"

text \<open>Lines 120--123.\<close>

definition variable_block :: "string \<Rightarrow> string \<Rightarrow> world \<Rightarrow> world" where
  "variable_block task var_name w =
     (if task = ''add_variable'' then submit (Action_addVariable var_name) w else w)"

text \<open>Lines 125--142.\<close>

definition kernel_block ::
  "host \<Rightarrow> nt_action \<Rightarrow> string \<Rightarrow> 32 word \<Rightarrow> string \<Rightarrow> string list \<Rightarrow> world \<Rightarrow> world" where
  "kernel_block h a task op var_name all_var_names w =
     (if task = ''add_kernel''
      then (let w = (if \<not> eigen (parameters a)
                     then addNtKernel h a op var_name ''NtTimeDerivative'' all_var_names w
                     else w);
                w = addNtKernel h a op var_name ''GroupDiffusion'' all_var_names w;
                w = addNtKernel h a op var_name ''SigmaR'' all_var_names w;
                w = (if m_num_groups a \<noteq> 1
                     then addNtKernel h a op var_name ''InScatter'' all_var_names w
                     else w);
                w = addCoupledFissionKernel h a op var_name all_var_names w;
                w = (if account_delayed (parameters a)
                     then addDelayedNeutronSource h a op var_name w
                     else w)
            in w)
      else w)"

text \<open>Lines 144--159.\<close>

definition bc_block :: "host \<Rightarrow> nt_action \<Rightarrow> string \<Rightarrow> string \<Rightarrow> world \<Rightarrow> world" where
  "bc_block h a task var_name w =
     (if task = ''add_bc''
      then (case vacuum_boundaries (parameters a) of
              None \<Rightarrow> w
            | Some boundaries \<Rightarrow>
                (let ps = getValidParams h ''VacuumConcBC'';
                     ps = ps(''boundary'' \<mapsto> PNames boundaries);
                     ps = ps(''variable'' \<mapsto> PName var_name);
                     ps = ps(''use_exp_form'' \<mapsto> PBool (use_exp_form (parameters a)));
                     ps = ps(''vacuum_bc_type'' \<mapsto> PVacuumBC (vacuum_bc_type (parameters a)));
                     bc_name = ''VacuumConcBC_'' @ var_name
                 in submit (Problem_addBoundaryCondition ''VacuumConcBC'' bc_name ps) w))
      else w)"

text \<open>
  Lines 161--206. \<^verbatim>\<open>mooseError\<close> does not return: the pass ends there, with the world as
  it is at that moment.
\<close>

definition ic_block :: "host \<Rightarrow> nt_action \<Rightarrow> string \<Rightarrow> string \<Rightarrow> world \<Rightarrow> outcome" where
  "ic_block h a task var_name w =
     (if task = ''add_ic'' \<and> \<not> init_nts_from_file (parameters a)
      then (if jac_test (parameters a) \<and> isParamValid (nt_ic_function (parameters a))
            then Inl (ConflictingOptionError, w)
            else if jac_test (parameters a)
            then (let ps = getValidParams h ''RandomIC'';
                      ps = ps(''variable'' \<mapsto> PName var_name);
                      ps = set_block (block (parameters a)) ps;
                      ps = ps(''min'' \<mapsto> PReal 0);
                      ps = ps(''max'' \<mapsto> PReal 1);
                      ic_name = ''RandomIC_'' @ var_name
                  in Inr (submit (Problem_addInitialCondition ''RandomIC'' ic_name ps) w))
            else (case nt_ic_function (parameters a) of
                    Some f \<Rightarrow>
                      (let ps = getValidParams h ''FunctionIC'';
                           ps = ps(''variable'' \<mapsto> PName var_name);
                           ps = set_block (block (parameters a)) ps;
                           ps = ps(''function'' \<mapsto> PName f);
                           ic_name = ''FunctionIC_'' @ var_name
                       in Inr (submit (Problem_addInitialCondition ''FunctionIC'' ic_name ps) w))
                  | None \<Rightarrow>
                      (let ps = getValidParams h ''ConstantIC'';
                           ps = ps(''variable'' \<mapsto> PName var_name);
                           ps = set_block (block (parameters a)) ps;
                           ps = (if use_exp_form (parameters a)
                                 then ps(''value'' \<mapsto> PReal 0)
                                 else ps(''value'' \<mapsto> PReal 1));
                           ic_name = ''ConstantIC_'' @ var_name
                       in Inr (submit (Problem_addInitialCondition ''ConstantIC'' ic_name ps) w))))
      else Inr w)"

text \<open>Lines 208--234.\<close>

definition aux_block :: "host \<Rightarrow> nt_action \<Rightarrow> string \<Rightarrow> string \<Rightarrow> world \<Rightarrow> world" where
  "aux_block h a task var_name w =
     (if use_exp_form (parameters a)
      then (let aux_var_name = var_name @ ''_lin'';
                w = (if task = ''add_aux_variable''
                     then (let blocks = getSubdomainIDs h (block (parameters a));
                               fe_type = FEType FIRST LAGRANGE
                           in if blocks = {}
                              then submit (Problem_addAuxVariable aux_var_name fe_type None) w
                              else submit (Problem_addAuxVariable aux_var_name fe_type (Some blocks)) w)
                     else w);
                w = (if task = ''add_aux_kernel''
                     then (let ps = getValidParams h ''Density'';
                               ps = ps(''variable'' \<mapsto> PName aux_var_name);
                               ps = ps(''density_log'' \<mapsto> PNames [var_name]);
                               ps = set_block (block (parameters a)) ps;
                               aux_kernel_name = ''Density_'' @ aux_var_name
                           in submit (Problem_addAuxKernel ''Density'' aux_kernel_name ps) w)
                     else w)
            in w)
      else w)"

text \<open>The body of the loop of lines 97--235, for the group \<open>op\<close>.\<close>

definition group_body ::
  "host \<Rightarrow> nt_action \<Rightarrow> string \<Rightarrow> string list \<Rightarrow> 32 word \<Rightarrow> world \<Rightarrow> outcome" where
  "group_body h a task all_var_names op w =
     (let var_name = m_var_name_base a @ stringify op;
          w = restart_block a task var_name w;
          w = variable_block task var_name w;
          w = kernel_block h a task op var_name all_var_names w;
          w = bc_block h a task var_name w
      in case ic_block h a task var_name w of
           Inl e \<Rightarrow> Inl e
         | Inr w \<Rightarrow> Inr (aux_block h a task var_name w))"

text \<open>Lines 254--267: the descriptor of the temperature variable.\<close>

definition temperature_variable :: "host \<Rightarrow> nt_action \<Rightarrow> call" where
  "temperature_variable h a =
     (let temp_var = ''temp'';
          ord = (if dg_for_temperature (parameters a) then FIRST else FIRST);
          fam = (if dg_for_temperature (parameters a) then L2_LAGRANGE else LAGRANGE);
          variable_type = variableType h (FEType ord fam);
          ps = getValidParams h variable_type;
          ps = ps(''order'' \<mapsto> PEnum (order_to_string h ord));
          ps = ps(''family'' \<mapsto> PEnum (family_to_string h fam));
          ps = ps(''scaling'' \<mapsto>
                   PReals [case temp_scaling (parameters a) of Some s \<Rightarrow> s | None \<Rightarrow> 1])
      in Problem_addVariable variable_type temp_var ps)"

text \<open>Lines 237--268: what follows the loop.\<close>

definition temperature_block :: "host \<Rightarrow> nt_action \<Rightarrow> string \<Rightarrow> world \<Rightarrow> world" where
  "temperature_block h a task w =
     (if create_temperature_var (parameters a)
      then (let temp_var = ''temp'';
                w = (if init_temperature_from_file (parameters a)
                     then (let w = (if task = ''check_copy_nodal_vars''
                                    then setExodusFileRestart True w else w);
                               w = (if task = ''copy_nodal_vars''
                                    then submit (System_addVariableToCopy temp_var temp_var ''LATEST'') w
                                    else w)
                           in w)
                     else w);
                w = (if task = ''add_variable'' then submit (temperature_variable h a) w else w)
            in w)
      else w)"

subsection \<open>The loops and \<open>act\<close>\<close>

text \<open>
  Both loops are \<^verbatim>\<open>for (unsigned int op = 1; op <= _num_groups; ++op)\<close>. The counter is
  a 32-bit word and \<open>++op\<close> wraps, so the loops may not end: they are partial functions,
  \<open>None\<close> standing for a run that does not return.
\<close>

partial_function (option) all_var_names_loop ::
  "nt_action \<Rightarrow> 32 word \<Rightarrow> string list \<Rightarrow> string list option" where
  "all_var_names_loop a op all_var_names =
     (if op \<le> m_num_groups a
      then all_var_names_loop a (op + 1) (all_var_names @ [m_var_name_base a @ stringify op])
      else Some all_var_names)"

partial_function (option) group_loop ::
  "host \<Rightarrow> nt_action \<Rightarrow> string \<Rightarrow> string list \<Rightarrow> 32 word \<Rightarrow> world \<Rightarrow> outcome option" where
  "group_loop h a task all_var_names op w =
     (if op \<le> m_num_groups a
      then (case group_body h a task all_var_names op w of
              Inl e \<Rightarrow> Some (Inl e)
            | Inr w' \<Rightarrow> group_loop h a task all_var_names (op + 1) w')
      else Some (Inr w))"

definition act :: "host \<Rightarrow> nt_action \<Rightarrow> string \<Rightarrow> world \<Rightarrow> outcome option" where
  "act h a task w =
     (case all_var_names_loop a 1 [] of
        None \<Rightarrow> None
      | Some all_var_names \<Rightarrow>
          (case group_loop h a task all_var_names 1 w of
             None \<Rightarrow> None
           | Some (Inl e) \<Rightarrow> Some (Inl e)
           | Some (Inr w') \<Rightarrow> Some (Inr (temperature_block h a task w'))))"

subsection \<open>Notions the properties are stated with\<close>

text \<open>The passes of the loop over the groups, for a list of group numbers in order.\<close>

fun run_groups :: "(32 word \<Rightarrow> world \<Rightarrow> outcome) \<Rightarrow> nat list \<Rightarrow> world \<Rightarrow> outcome" where
  "run_groups f [] w = Inr w"
| "run_groups f (i # js) w =
     (case f (of_nat i) w of Inl e \<Rightarrow> Inl e | Inr w' \<Rightarrow> run_groups f js w')"

text \<open>The group numbers \<open>1, \<dots>, _num_groups\<close>, ascending.\<close>

definition group_indices :: "nt_action \<Rightarrow> nat list" where
  "group_indices a = [1 ..< Suc (unat (m_num_groups a))]"

text \<open>The names of all the group variables, as the first loop collects them.\<close>

definition group_names :: "nt_action \<Rightarrow> string list" where
  "group_names a = map (\<lambda>i. m_var_name_base a @ decimal i) (group_indices a)"

text \<open>What a block submits, taken on its own: its submissions to an empty world.\<close>

definition emitted :: "(world \<Rightarrow> world) \<Rightarrow> call list" where
  "emitted f = submitted (f \<lparr>submitted = [], exodus_file_restart = False\<rparr>)"

text \<open>Reading a submitted call: is it a kernel of a given kind, and its name.\<close>

definition is_kernel :: "string \<Rightarrow> call \<Rightarrow> bool" where
  "is_kernel kind d = (case d of Problem_addKernel k n ps \<Rightarrow> k = kind | _ \<Rightarrow> False)"

fun call_name :: "call \<Rightarrow> string" where
  "call_name (Action_addVariable n) = n"
| "call_name (Problem_addVariable ty n ps) = n"
| "call_name (Problem_addAuxVariable n fe blocks) = n"
| "call_name (Problem_addKernel k n ps) = n"
| "call_name (Problem_addAuxKernel k n ps) = n"
| "call_name (Problem_addBoundaryCondition k n ps) = n"
| "call_name (Problem_addInitialCondition k n ps) = n"
| "call_name (System_addVariableToCopy dst src tag) = dst"

text \<open>
  Dropping the time-derivative kernels, and tagging the fission kernels the way
  \<^verbatim>\<open>addCoupledFissionKernel\<close> does in eigenvalue mode.
\<close>

definition not_time_derivative :: "call \<Rightarrow> bool" where
  "not_time_derivative d = (\<not> is_kernel ''NtTimeDerivative'' d)"

definition tag_eigen :: "call \<Rightarrow> call" where
  "tag_eigen d =
     (case d of
        Problem_addKernel k n ps \<Rightarrow>
          if k = ''CoupledFissionKernel''
          then Problem_addKernel k n (ps(''extra_vector_tags'' \<mapsto> PNames [''eigen'']))
          else d
      | _ \<Rightarrow> d)"

text \<open>The calls a run has submitted when it stops; none when it does not stop.\<close>

definition calls_of :: "outcome option \<Rightarrow> call list" where
  "calls_of r =
     (case r of None \<Rightarrow> [] | Some (Inl (e, w)) \<Rightarrow> submitted w | Some (Inr w) \<Rightarrow> submitted w)"

text \<open>
  The kind of initial condition the task \<open>add_ic\<close> is said to choose: random values in
  the Jacobian test, else the given function, else a constant.
\<close>

definition chosen_ic :: "config \<Rightarrow> string" where
  "chosen_ic ps =
     (if jac_test ps then ''RandomIC''
      else if nt_ic_function ps \<noteq> None then ''FunctionIC''
      else ''ConstantIC'')"

text \<open>The parameters of the initial condition that \<open>ic_block\<close> submits for a variable.\<close>

definition ic_params :: "host \<Rightarrow> nt_action \<Rightarrow> string \<Rightarrow> params" where
  "ic_params h a v =
     (case ic_block h a ''add_ic'' v \<lparr>submitted = [], exodus_file_restart = False\<rparr> of
        Inr w \<Rightarrow> (case last (submitted w) of Problem_addInitialCondition k n ps \<Rightarrow> ps | _ \<Rightarrow> Map.empty)
      | Inl e \<Rightarrow> Map.empty)"

text \<open>
  When the task \<open>check_copy_nodal_vars\<close> reaches a \<^verbatim>\<open>setExodusFileRestart(true)\<close>: in a
  pass of the loop with \<open>init_nts_from_file\<close>, or after it, where the temperature variable
  is created, with \<open>init_temperature_from_file\<close>.
\<close>

definition signals_restart :: "nt_action \<Rightarrow> bool" where
  "signals_restart a =
     (init_nts_from_file (parameters a) \<and> m_num_groups a \<noteq> 0 \<or>
      create_temperature_var (parameters a) \<and> init_temperature_from_file (parameters a))"

text \<open>The calls a run has added to those the world held before it.\<close>

definition new_calls :: "world \<Rightarrow> outcome option \<Rightarrow> call list" where
  "new_calls w r = drop (length (submitted w)) (calls_of r)"

text \<open>
  The kernels listed for one group, by name: time derivative (skipped in eigenvalue mode),
  diffusion, removal, in-scatter (skipped with a single group), fission source, and
  delayed-neutron source (only when delayed neutrons are accounted for).
\<close>

definition group_kernel_names :: "nt_action \<Rightarrow> string \<Rightarrow> string list" where
  "group_kernel_names a v =
     (if eigen (parameters a) then [] else [''NtTimeDerivative_'' @ v]) @
     [''GroupDiffusion_'' @ v, ''SigmaR_'' @ v] @
     (if m_num_groups a = 1 then [] else [''InScatter_'' @ v]) @
     [''CoupledFissionKernel_'' @ v] @
     (if account_delayed (parameters a) then [''DelayedNeutronSource_'' @ v] else [])"

subsection \<open>A small configuration to run the action on\<close>

text \<open>
  A host with empty schemas that copies every parameter it is handed, a two-group
  configuration in the style of the repository's input files, and an empty world.
\<close>

definition host0 :: host where
  "host0 =
     \<lparr>getValidParams = (\<lambda>kind. Map.empty),
      applyParameter = (\<lambda>name v ps. case v of None \<Rightarrow> ps | Some x \<Rightarrow> ps(name \<mapsto> x)),
      variableType = (\<lambda>fe. ''MooseVariable''),
      order_to_string = (\<lambda>ord. ''FIRST''),
      family_to_string =
        (\<lambda>fam. case fam of LAGRANGE \<Rightarrow> ''LAGRANGE'' | L2_LAGRANGE \<Rightarrow> ''L2_LAGRANGE''),
      getSubdomainIDs = (\<lambda>blocks. {})\<rparr>"

definition config0 :: config where
  "config0 =
     \<lparr>num_precursor_groups = 6, var_name_base = ''group'', temperature = [''temp''],
      pre_concs = Some [''pre1'', ''pre2''], temp_scaling = None, num_groups = 2,
      use_exp_form = False, jac_test = False, nt_ic_function = None,
      vacuum_boundaries = Some [''fuel_bottoms'', ''fuel_tops''], vacuum_bc_type = marshak,
      create_temperature_var = True, init_nts_from_file = False,
      init_temperature_from_file = False, dg_for_temperature = True, eigen = False,
      account_delayed = True, sss2_input = True, pre_blocks = None,
      eigenvalue_scaling = 1, block = None\<rparr>"

definition world0 :: world where
  "world0 = \<lparr>submitted = [], exodus_file_restart = False\<rparr>"

section \<open>The loops\<close>

lemma unat_succ: "op \<le> n \<Longrightarrow> n \<noteq> - 1 \<Longrightarrow> unat (op + 1) = Suc (unat op)" for op n :: "32 word"
  by (metis add.commute max_word_wrap unatSuc word_order.extremum_uniqueI)

lemma upt_step:
  assumes "op \<le> n"
  shows "[unat op ..< Suc (unat n)] = unat op # [Suc (unat op) ..< Suc (unat n)]"
  using assms by (intro upt_conv_Cons) (simp add: word_le_nat_alt)

text \<open>When \<open>_num_groups\<close> is the largest word, \<open>op <= _num_groups\<close> never fails.\<close>

lemma all_var_names_loop_Some:
  assumes "all_var_names_loop a op acc = Some y"
  shows "m_num_groups a \<noteq> - 1"
  using assms
  by (rule all_var_names_loop.raw_induct[rotated 1, where P="\<lambda>a _ _ _. m_num_groups a \<noteq> - 1"])
     (auto split: if_splits)

lemma all_var_names_loop_diverges:
  "m_num_groups a = - 1 \<Longrightarrow> all_var_names_loop a op acc = None"
  using all_var_names_loop_Some by (cases "all_var_names_loop a op acc") auto

lemma act_diverges: "m_num_groups a = - 1 \<Longrightarrow> act h a task w = None"
  by (simp add: act_def all_var_names_loop_diverges)

text \<open>Otherwise both loops end, after the passes for \<open>op, op + 1, \<dots>, _num_groups\<close>.\<close>

lemma all_var_names_loop_returns:
  assumes "m_num_groups a \<noteq> - 1"
  shows "all_var_names_loop a op acc =
         Some (acc @ map (\<lambda>i. m_var_name_base a @ decimal i)
                       [unat op ..< Suc (unat (m_num_groups a))])"
proof (induction "Suc (unat (m_num_groups a)) - unat op" arbitrary: op acc)
  case 0
  then have "\<not> op \<le> m_num_groups a" by (simp add: word_le_nat_alt)
  with 0 show ?case by (subst all_var_names_loop.simps) simp
next
  case (Suc k)
  then have le: "op \<le> m_num_groups a" by (simp add: word_le_nat_alt)
  have s: "unat (op + 1) = Suc (unat op)" using le assms by (rule unat_succ)
  have "k = Suc (unat (m_num_groups a)) - unat (op + 1)" using Suc.hyps(2) s by simp
  from Suc.hyps(1)[OF this] show ?case using le
    by (subst all_var_names_loop.simps) (simp add: upt_step[OF le] s stringify_def del: upt_Suc)
qed

lemma group_loop_returns:
  assumes "m_num_groups a \<noteq> - 1"
  shows "group_loop h a task names op w =
         Some (run_groups (group_body h a task names) [unat op ..< Suc (unat (m_num_groups a))] w)"
proof (induction "Suc (unat (m_num_groups a)) - unat op" arbitrary: op w)
  case 0
  then have "\<not> op \<le> m_num_groups a" by (simp add: word_le_nat_alt)
  with 0 show ?case by (subst group_loop.simps) simp
next
  case (Suc k)
  then have le: "op \<le> m_num_groups a" by (simp add: word_le_nat_alt)
  have s: "unat (op + 1) = Suc (unat op)" using le assms by (rule unat_succ)
  have "k = Suc (unat (m_num_groups a)) - unat (op + 1)" using Suc.hyps(2) s by simp
  from Suc.hyps(1)[OF this] show ?case using le
    by (subst group_loop.simps) (simp add: upt_step[OF le] s del: upt_Suc split: sum.splits)
qed

lemma act_returns:
  assumes "m_num_groups a \<noteq> - 1"
  shows "act h a task w =
         Some (case run_groups (group_body h a task (group_names a)) (group_indices a) w of
                 Inl e \<Rightarrow> Inl e
               | Inr w' \<Rightarrow> Inr (temperature_block h a task w'))"
  by (simp add: act_def all_var_names_loop_returns[OF assms] group_loop_returns[OF assms]
        group_names_def group_indices_def split: sum.splits del: upt_Suc)

lemma run_groups_append:
  assumes "\<And>i w. i \<in> set js \<Longrightarrow> f (of_nat i) w = Inr (w\<lparr>submitted := submitted w @ g i\<rparr>)"
  shows "run_groups f js w = Inr (w\<lparr>submitted := submitted w @ concat (map g js)\<rparr>)"
  using assms by (induction js arbitrary: w) simp_all

lemma stringify_of_nat:
  assumes "i \<in> set (group_indices a)"
  shows "stringify (of_nat i) = decimal i"
proof -
  from assms have "i \<le> unat (m_num_groups a)" by (auto simp: group_indices_def)
  then have "unat (of_nat i :: 32 word) = i" by (rule le_unat_uoi)
  then show ?thesis by (simp add: stringify_def)
qed

text \<open>Passes that only append to the submissions, that change nothing, or that only set the flag.\<close>

lemmas body_defs = group_body_def restart_block_def variable_block_def kernel_block_def
  bc_block_def ic_block_def aux_block_def Let_def

lemma temperature_block_other:
  "task \<noteq> ''add_variable'' \<Longrightarrow> task \<noteq> ''check_copy_nodal_vars'' \<Longrightarrow> task \<noteq> ''copy_nodal_vars'' \<Longrightarrow>
   temperature_block h a task w = w"
  by (simp add: temperature_block_def Let_def)

lemma run_groups_id:
  assumes "\<And>i w. i \<in> set js \<Longrightarrow> f (of_nat i) w = Inr w"
  shows "run_groups f js w = Inr w"
  using assms by (induction js arbitrary: w) simp_all

lemma run_groups_flag:
  assumes "\<And>i w. f (of_nat i) w = Inr (if c then w\<lparr>exodus_file_restart := True\<rparr> else w)"
  shows "run_groups f js w = Inr (if c \<and> js \<noteq> [] then w\<lparr>exodus_file_restart := True\<rparr> else w)"
  by (induction js arbitrary: w) (simp_all add: assms)

lemma indices_Nil: "group_indices a = [] \<longleftrightarrow> m_num_groups a = 0"
proof -
  have "unat (m_num_groups a) = 0 \<longleftrightarrow> m_num_groups a = 0" by (rule unat_eq_0)
  then show ?thesis by (auto simp: group_indices_def)
qed

lemma indices_Cons:
  assumes "m_num_groups a \<noteq> 0"
  shows "group_indices a = 1 # [Suc 1 ..< Suc (unat (m_num_groups a))]"
proof -
  from assms have "1 < Suc (unat (m_num_groups a))" by (simp add: unat_gt_0)
  then show ?thesis unfolding group_indices_def by (rule upt_conv_Cons)
qed

lemma map_filter_concat:
  "map f (filter P (concat (map g xs))) = concat (map (\<lambda>x. map f (filter P (g x))) xs)"
  by (induction xs) simp_all

section \<open>Decimal numerals\<close>

lemma digit_val_digit_char: "d < 10 \<Longrightarrow> digit_val (digit_char d) = d"
  by (simp add: digit_val_def digit_char_def)

lemma decimal_value_snoc: "decimal_value (s @ [c]) = 10 * decimal_value s + digit_val c"
  by (simp add: decimal_value_def)

lemma decimal_value_decimal: "decimal_value (decimal n) = n"
proof (induction n rule: decimal.induct)
  case (1 n)
  show ?case
  proof (cases "n < 10")
    case True
    then show ?thesis
      by (subst decimal.simps) (simp add: decimal_value_def digit_val_digit_char)
  next
    case False
    with 1 show ?thesis
      by (subst decimal.simps) (simp add: decimal_value_snoc digit_val_digit_char)
  qed
qed

lemma decimal_not_Nil: "decimal n \<noteq> []"
  by (subst decimal.simps) simp

lemma hd_decimal: "0 < n \<Longrightarrow> hd (decimal n) \<noteq> CHR ''0''"
proof (induction n rule: decimal.induct)
  case (1 n)
  show ?case
  proof (cases "n < 10")
    case True
    have "digit_char n \<noteq> CHR ''0''"
    proof
      assume "digit_char n = CHR ''0''"
      then have "digit_val (digit_char n) = digit_val (CHR ''0'')" by simp
      with True 1(2) show False by (simp add: digit_val_digit_char) (simp add: digit_val_def)
    qed
    with True show ?thesis by (subst decimal.simps) simp
  next
    case False
    then have "0 < n div 10" by simp
    with 1(1) False have "hd (decimal (n div 10)) \<noteq> CHR ''0''" by simp
    with False show ?thesis by (subst decimal.simps) (simp add: decimal_not_Nil)
  qed
qed

section \<open>Small cases, evaluated\<close>

lemma init_members_facts:
  "m_num_groups (init_members cfg) = num_groups cfg"
  "m_var_name_base (init_members cfg) = var_name_base cfg"
  "parameters (init_members cfg) = cfg"
  by (simp_all add: init_members_def)

lemma indices_one: "m_num_groups a = 1 \<Longrightarrow> group_indices a = [Suc 0]"
  by (simp add: group_indices_def)

lemma indices_two: "m_num_groups a = 2 \<Longrightarrow> group_indices a = [Suc 0, 2]"
proof -
  assume "m_num_groups a = 2"
  moreover have "[Suc 0 ..< 3] = [Suc 0, 2]" by code_simp
  ultimately show ?thesis by (simp add: group_indices_def)
qed

lemma upt_1_3: "[Suc 0 ..< 3] = [Suc 0, 2]"
  by code_simp

lemma decimal_1_2: "decimal (Suc 0) = ''1''" "decimal 2 = ''2''"
  by code_simp+

lemma stringify_1_2: "stringify 1 = ''1''" "stringify 2 = ''2''"
  by (simp_all add: stringify_def decimal_1_2)

section \<open>Task \<open>add_variable\<close>\<close>

lemma group_body_add_variable:
  "group_body h a ''add_variable'' names op w =
     Inr (w\<lparr>submitted := submitted w @ [Action_addVariable (m_var_name_base a @ stringify op)]\<rparr>)"
  by (simp add: group_body_def restart_block_def variable_block_def kernel_block_def bc_block_def
        ic_block_def aux_block_def submit_def Let_def)

lemma groups_add_variable:
  "run_groups (group_body h a ''add_variable'' names) (group_indices a) w =
     Inr (w\<lparr>submitted := submitted w @
        map (\<lambda>i. Action_addVariable (m_var_name_base a @ decimal i)) (group_indices a)\<rparr>)"
proof -
  have "run_groups (group_body h a ''add_variable'' names) (group_indices a) w =
     Inr (w\<lparr>submitted := submitted w @
        concat (map (\<lambda>i. [Action_addVariable (m_var_name_base a @ decimal i)]) (group_indices a))\<rparr>)"
    by (rule run_groups_append) (simp only: group_body_add_variable stringify_of_nat)
  then show ?thesis by simp
qed

lemma temperature_block_add_variable:
  "temperature_block h a ''add_variable'' w =
     w\<lparr>submitted := submitted w @
        (if create_temperature_var (parameters a) then [temperature_variable h a] else [])\<rparr>"
  by (simp add: temperature_block_def submit_def Let_def)

text \<open>
  C1, as amended. For every action whose \<open>_num_groups = N\<close> is below \<open>2^32 - 1\<close> and whose
  base name is \<open>b\<close>, the task \<open>add_variable\<close> returns, having submitted exactly the
  \<open>N\<close> group variables \<open>b + decimal(1), \<dots>, b + decimal(N)\<close> in ascending order, followed by
  the temperature variable if and only if \<open>create_temperature_var\<close> is set. \<open>decimal\<close>
  writes a number so that it reads back as itself, is never empty and has no leading zero
  (no padding).
\<close>

theorem add_variable_names:
  assumes "m_num_groups a \<noteq> - 1"
  shows "act h a ''add_variable'' w =
           Some (Inr (w\<lparr>submitted := submitted w @
              map (\<lambda>i. Action_addVariable (m_var_name_base a @ decimal i))
                [1 ..< Suc (unat (m_num_groups a))] @
              (if create_temperature_var (parameters a) then [temperature_variable h a] else [])\<rparr>))
         \<and> (\<forall>i. decimal_value (decimal i) = i \<and> decimal i \<noteq> [] \<and>
                 (0 < i \<longrightarrow> hd (decimal i) \<noteq> CHR ''0''))"
proof -
  have "act h a ''add_variable'' w =
           Some (Inr (w\<lparr>submitted := submitted w @
              map (\<lambda>i. Action_addVariable (m_var_name_base a @ decimal i)) (group_indices a) @
              (if create_temperature_var (parameters a) then [temperature_variable h a] else [])\<rparr>))"
    by (simp add: act_returns[OF assms] groups_add_variable temperature_block_add_variable)
  then show ?thesis
    by (simp add: group_indices_def decimal_value_decimal decimal_not_Nil hd_decimal del: upt_Suc)
qed

text \<open>The two-group configuration: \<open>group1\<close>, \<open>group2\<close>, then \<open>temp\<close>.\<close>

theorem add_variable_names_witness:
  "m_num_groups (init_members config0) \<noteq> - 1 \<and>
   act host0 (init_members config0) ''add_variable'' world0 =
     Some (Inr (world0\<lparr>submitted :=
        [Action_addVariable ''group1'', Action_addVariable ''group2'',
         Problem_addVariable ''MooseVariable'' ''temp''
           [''order'' \<mapsto> PEnum ''FIRST'', ''family'' \<mapsto> PEnum ''L2_LAGRANGE'',
            ''scaling'' \<mapsto> PReals [1]]]\<rparr>)) \<and>
   decimal_value (decimal 12) = 12"
proof -
  have n: "m_num_groups (init_members config0) \<noteq> - 1"
    by (simp add: init_members_def config0_def)
  have i: "[Suc 0 ..< 3] = [Suc 0, 2]"
    by code_simp
  have d: "decimal (Suc 0) = ''1''" "decimal 2 = ''2''"
    by code_simp+
  show ?thesis
    using add_variable_names[OF n, of host0 world0] n
    by (simp add: init_members_def config0_def host0_def world0_def temperature_variable_def i d)
qed

text \<open>
  C1 as stated fails for \<open>num_groups = 2^32 - 1\<close>: \<open>op <= _num_groups\<close> holds for every
  word \<open>op\<close>, the first loop never ends and nothing is submitted.
\<close>

theorem add_variable_names_counterexample:
  "act host0 (init_members (config0\<lparr>num_groups := 4294967295\<rparr>)) ''add_variable'' world0 = None"
  by (rule act_diverges) (simp add: init_members_def)

section \<open>Task \<open>add_kernel\<close>\<close>

lemmas kernel_defs = kernel_block_def addNtKernel_def addCoupledFissionKernel_def
  addDelayedNeutronSource_def submit_def Let_def

lemma kernel_block_emitted:
  "kernel_block h a ''add_kernel'' op v names w =
     w\<lparr>submitted := submitted w @ emitted (kernel_block h a ''add_kernel'' op v names)\<rparr>"
  by (simp add: kernel_defs emitted_def)

lemma group_body_add_kernel:
  "group_body h a ''add_kernel'' names op w =
     Inr (w\<lparr>submitted := submitted w @
       emitted (kernel_block h a ''add_kernel'' op (m_var_name_base a @ stringify op) names)\<rparr>)"
  using kernel_block_emitted[of h a op "m_var_name_base a @ stringify op" names w]
  by (simp add: group_body_def restart_block_def variable_block_def bc_block_def
        ic_block_def aux_block_def Let_def)

lemma groups_add_kernel:
  "run_groups (group_body h a ''add_kernel'' names) (group_indices a) w =
     Inr (w\<lparr>submitted := submitted w @
        concat (map (\<lambda>i. emitted (kernel_block h a ''add_kernel'' (of_nat i)
                                   (m_var_name_base a @ decimal i) names)) (group_indices a))\<rparr>)"
  by (rule run_groups_append) (simp only: group_body_add_kernel stringify_of_nat)

lemma act_add_kernel:
  assumes "m_num_groups a \<noteq> - 1"
  shows "act h a ''add_kernel'' w =
     Some (Inr (w\<lparr>submitted := submitted w @
        concat (map (\<lambda>i. emitted (kernel_block h a ''add_kernel'' (of_nat i)
                                   (m_var_name_base a @ decimal i) (group_names a))) (group_indices a))\<rparr>))"
  by (simp add: act_returns[OF assms] groups_add_kernel temperature_block_other)

lemma inscatter_of_group:
  "map call_name (filter (is_kernel ''InScatter'') (emitted (kernel_block h a ''add_kernel'' op v names))) =
     (if m_num_groups a = 1 then [] else [''InScatter_'' @ v])"
  by (simp add: kernel_defs emitted_def is_kernel_def)

text \<open>
  C3, as amended. For every action whose \<open>_num_groups = N\<close> is below \<open>2^32 - 1\<close>, the task
  \<open>add_kernel\<close> returns; among the kernels it has submitted there is no \<open>InScatter\<close>
  kernel when \<open>N = 1\<close>, and otherwise the \<open>InScatter\<close> kernels are, in order, exactly one
  for each group \<open>i = 1, \<dots>, N\<close>, named \<open>InScatter_\<close> + the group's variable name.
\<close>

theorem in_scatter_per_group:
  assumes "m_num_groups a \<noteq> - 1"
  shows "\<exists>ks. act h a ''add_kernel'' w = Some (Inr (w\<lparr>submitted := submitted w @ ks\<rparr>)) \<and>
           map call_name (filter (is_kernel ''InScatter'') ks) =
             (if m_num_groups a = 1 then []
              else map (\<lambda>i. ''InScatter_'' @ m_var_name_base a @ decimal i)
                     [1 ..< Suc (unat (m_num_groups a))])"
proof -
  let ?ks = "concat (map (\<lambda>i. emitted (kernel_block h a ''add_kernel'' (of_nat i)
                                   (m_var_name_base a @ decimal i) (group_names a))) (group_indices a))"
  have "map call_name (filter (is_kernel ''InScatter'') ?ks) =
        concat (map (\<lambda>i. if m_num_groups a = 1 then []
                          else [''InScatter_'' @ m_var_name_base a @ decimal i]) (group_indices a))"
    by (simp only: map_filter_concat inscatter_of_group)
  also have "\<dots> = (if m_num_groups a = 1 then []
              else map (\<lambda>i. ''InScatter_'' @ m_var_name_base a @ decimal i) (group_indices a))"
    by simp
  finally show ?thesis
    using act_add_kernel[OF assms, of h w] by (auto simp: group_indices_def simp del: upt_Suc)
qed

text \<open>Two groups give two in-scatter kernels, one group gives none.\<close>

theorem in_scatter_per_group_witness:
  "m_num_groups (init_members config0) \<noteq> - 1 \<and>
   (\<exists>ks. act host0 (init_members config0) ''add_kernel'' world0 =
            Some (Inr (world0\<lparr>submitted := ks\<rparr>)) \<and>
         map call_name (filter (is_kernel ''InScatter'') ks) =
           [''InScatter_group1'', ''InScatter_group2'']) \<and>
   (\<exists>ks. act host0 (init_members (config0\<lparr>num_groups := 1\<rparr>)) ''add_kernel'' world0 =
            Some (Inr (world0\<lparr>submitted := ks\<rparr>)) \<and>
         filter (is_kernel ''InScatter'') ks = [])"
proof -
  have n: "m_num_groups (init_members config0) \<noteq> - 1"
      "m_num_groups (init_members (config0\<lparr>num_groups := 1\<rparr>)) \<noteq> - 1"
    by (simp_all add: init_members_def config0_def)
  have i: "[Suc 0 ..< 3] = [Suc 0, 2]"
    by code_simp
  have d: "decimal (Suc 0) = ''1''" "decimal 2 = ''2''"
    by code_simp+
  show ?thesis
    using in_scatter_per_group[OF n(1), of host0 world0]
      in_scatter_per_group[OF n(2), of host0 world0] n(1)
    by (simp add: init_members_def config0_def world0_def i d)
qed

text \<open>
  C3 as stated (\<open>N\<close> in-scatter kernels for every \<open>N \<ge> 2\<close>) fails for
  \<open>num_groups = 2^32 - 1\<close>, where the run does not return.
\<close>

theorem in_scatter_per_group_counterexample:
  "act host0 (init_members (config0\<lparr>num_groups := 4294967295\<rparr>)) ''add_kernel'' world0 = None"
  by (rule act_diverges) (simp add: init_members_def)

lemma eigen_kernels_of_group:
  "emitted (kernel_block h (a\<lparr>parameters := (parameters a)\<lparr>eigen := True\<rparr>\<rparr>) ''add_kernel'' op v names) =
     map tag_eigen (filter not_time_derivative
       (emitted (kernel_block h (a\<lparr>parameters := (parameters a)\<lparr>eigen := False\<rparr>\<rparr>) ''add_kernel'' op v names)))"
  by (simp add: kernel_defs emitted_def tag_eigen_def not_time_derivative_def is_kernel_def
        applySpecificParameters_def action_param_def)

lemma kernel_names_of_group:
  "map call_name (emitted (kernel_block h a ''add_kernel'' op v names)) = group_kernel_names a v"
  by (simp add: kernel_defs emitted_def group_kernel_names_def)

lemma time_derivative_of_group:
  "map call_name (filter (is_kernel ''NtTimeDerivative'')
       (emitted (kernel_block h a ''add_kernel'' op v names))) =
     (if eigen (parameters a) then [] else [''NtTimeDerivative_'' @ v])"
  by (simp add: kernel_defs emitted_def is_kernel_def)

lemma new_calls_returned: "new_calls w (Some (Inr (w\<lparr>submitted := submitted w @ ks\<rparr>))) = ks"
  by (simp add: new_calls_def calls_of_def)

lemma new_calls_None: "new_calls w None = []"
  by (simp add: new_calls_def calls_of_def)

lemma map_concat_map: "map f (concat (map g xs)) = concat (map (\<lambda>x. map f (g x)) xs)"
  by (induction xs) simp_all

text \<open>
  C2, as amended. For every action, the kernels that \<open>add_kernel\<close> submits with
  \<open>eigen = true\<close> are those it submits with \<open>eigen = false\<close>, in the same order, without
  the \<open>NtTimeDerivative\<close> kernels and with \<open>extra_vector_tags = {eigen}\<close> set in the
  parameters of every \<open>CoupledFissionKernel\<close>; all other descriptors are the same in kind,
  name and parameters. When \<open>_num_groups = N\<close> is below \<open>2^32 - 1\<close> both runs return; the
  run with \<open>eigen = false\<close> has submitted, for each group \<open>1, \<dots>, N\<close> in order, the kernels
  listed for the group, of which exactly one, the first, is its \<open>NtTimeDerivative\<close>
  kernel; the run with \<open>eigen = true\<close> has submitted the same lists without it, and no
  \<open>NtTimeDerivative\<close> kernel at all.
\<close>

theorem eigen_drops_time_derivative:
  "new_calls w (act h (a\<lparr>parameters := (parameters a)\<lparr>eigen := True\<rparr>\<rparr>) ''add_kernel'' w) =
     map tag_eigen (filter not_time_derivative
       (new_calls w (act h (a\<lparr>parameters := (parameters a)\<lparr>eigen := False\<rparr>\<rparr>) ''add_kernel'' w))) \<and>
   (m_num_groups a \<noteq> - 1 \<longrightarrow>
      act h (a\<lparr>parameters := (parameters a)\<lparr>eigen := False\<rparr>\<rparr>) ''add_kernel'' w =
        Some (Inr (w\<lparr>submitted := submitted w @
          new_calls w (act h (a\<lparr>parameters := (parameters a)\<lparr>eigen := False\<rparr>\<rparr>) ''add_kernel'' w)\<rparr>)) \<and>
      act h (a\<lparr>parameters := (parameters a)\<lparr>eigen := True\<rparr>\<rparr>) ''add_kernel'' w =
        Some (Inr (w\<lparr>submitted := submitted w @
          new_calls w (act h (a\<lparr>parameters := (parameters a)\<lparr>eigen := True\<rparr>\<rparr>) ''add_kernel'' w)\<rparr>)) \<and>
      map call_name
        (new_calls w (act h (a\<lparr>parameters := (parameters a)\<lparr>eigen := False\<rparr>\<rparr>) ''add_kernel'' w)) =
        concat (map (\<lambda>i. group_kernel_names (a\<lparr>parameters := (parameters a)\<lparr>eigen := False\<rparr>\<rparr>)
                           (m_var_name_base a @ decimal i))
                  [1 ..< Suc (unat (m_num_groups a))]) \<and>
      map call_name
        (new_calls w (act h (a\<lparr>parameters := (parameters a)\<lparr>eigen := True\<rparr>\<rparr>) ''add_kernel'' w)) =
        concat (map (\<lambda>i. group_kernel_names (a\<lparr>parameters := (parameters a)\<lparr>eigen := True\<rparr>\<rparr>)
                           (m_var_name_base a @ decimal i))
                  [1 ..< Suc (unat (m_num_groups a))]) \<and>
      map call_name (filter (is_kernel ''NtTimeDerivative'')
        (new_calls w (act h (a\<lparr>parameters := (parameters a)\<lparr>eigen := False\<rparr>\<rparr>) ''add_kernel'' w))) =
        map (\<lambda>i. ''NtTimeDerivative_'' @ m_var_name_base a @ decimal i)
          [1 ..< Suc (unat (m_num_groups a))] \<and>
      filter (is_kernel ''NtTimeDerivative'')
        (new_calls w (act h (a\<lparr>parameters := (parameters a)\<lparr>eigen := True\<rparr>\<rparr>) ''add_kernel'' w)) = [])"
proof (cases "m_num_groups a = - 1")
  case True
  then show ?thesis by (simp add: act_diverges new_calls_None)
next
  case False
  let ?a0 = "a\<lparr>parameters := (parameters a)\<lparr>eigen := False\<rparr>\<rparr>"
  let ?a1 = "a\<lparr>parameters := (parameters a)\<lparr>eigen := True\<rparr>\<rparr>"
  let ?K = "\<lambda>a'. concat (map (\<lambda>i. emitted (kernel_block h a' ''add_kernel'' (of_nat i)
                 (m_var_name_base a @ decimal i) (group_names a))) (group_indices a))"
  have n: "m_num_groups ?a0 \<noteq> - 1" "m_num_groups ?a1 \<noteq> - 1"
    using False by simp_all
  have g: "group_names ?a1 = group_names a" "group_indices ?a1 = group_indices a"
      "group_names ?a0 = group_names a" "group_indices ?a0 = group_indices a"
    by (simp_all add: group_names_def group_indices_def)
  have r0: "act h ?a0 ''add_kernel'' w = Some (Inr (w\<lparr>submitted := submitted w @ ?K ?a0\<rparr>))"
    using act_add_kernel[OF n(1), of h w] by (simp only: g) simp
  have r1: "act h ?a1 ''add_kernel'' w = Some (Inr (w\<lparr>submitted := submitted w @ ?K ?a1\<rparr>))"
    using act_add_kernel[OF n(2), of h w] by (simp only: g) simp
  have c0: "new_calls w (act h ?a0 ''add_kernel'' w) = ?K ?a0"
    by (simp only: r0 new_calls_returned)
  have c1: "new_calls w (act h ?a1 ''add_kernel'' w) = ?K ?a1"
    by (simp only: r1 new_calls_returned)
  have rel: "?K ?a1 = map tag_eigen (filter not_time_derivative (?K ?a0))"
    by (simp only: eigen_kernels_of_group map_filter_concat[symmetric])
  have names: "map call_name (?K a') =
      concat (map (\<lambda>i. group_kernel_names a' (m_var_name_base a @ decimal i)) (group_indices a))" for a'
    by (simp only: map_concat_map kernel_names_of_group)
  have td0: "map call_name (filter (is_kernel ''NtTimeDerivative'') (?K ?a0)) =
      map (\<lambda>i. ''NtTimeDerivative_'' @ m_var_name_base a @ decimal i) (group_indices a)"
    by (simp only: map_filter_concat time_derivative_of_group) simp
  have "map call_name (filter (is_kernel ''NtTimeDerivative'') (?K ?a1)) = []"
    by (simp only: map_filter_concat time_derivative_of_group) simp
  then have td1: "filter (is_kernel ''NtTimeDerivative'') (?K ?a1) = []"
    by simp
  show ?thesis
    unfolding c0 c1
    using r0 r1 rel names[of ?a0] names[of ?a1] td0 td1
    by (simp add: group_indices_def del: upt_Suc)
qed

text \<open>
  The two-group configuration: twelve kernels with \<open>eigen = false\<close>, two of them time
  derivatives, and the ten others with \<open>eigen = true\<close>.
\<close>

theorem eigen_drops_time_derivative_witness:
  "m_num_groups (init_members config0) \<noteq> - 1 \<and>
   map call_name
     (new_calls world0 (act host0 (init_members (config0\<lparr>eigen := False\<rparr>)) ''add_kernel'' world0)) =
     [''NtTimeDerivative_group1'', ''GroupDiffusion_group1'', ''SigmaR_group1'',
      ''InScatter_group1'', ''CoupledFissionKernel_group1'', ''DelayedNeutronSource_group1'',
      ''NtTimeDerivative_group2'', ''GroupDiffusion_group2'', ''SigmaR_group2'',
      ''InScatter_group2'', ''CoupledFissionKernel_group2'', ''DelayedNeutronSource_group2''] \<and>
   map call_name
     (new_calls world0 (act host0 (init_members (config0\<lparr>eigen := True\<rparr>)) ''add_kernel'' world0)) =
     [''GroupDiffusion_group1'', ''SigmaR_group1'',
      ''InScatter_group1'', ''CoupledFissionKernel_group1'', ''DelayedNeutronSource_group1'',
      ''GroupDiffusion_group2'', ''SigmaR_group2'',
      ''InScatter_group2'', ''CoupledFissionKernel_group2'', ''DelayedNeutronSource_group2''] \<and>
   map call_name (filter (is_kernel ''NtTimeDerivative'')
     (new_calls world0 (act host0 (init_members (config0\<lparr>eigen := False\<rparr>)) ''add_kernel'' world0))) =
     [''NtTimeDerivative_group1'', ''NtTimeDerivative_group2''] \<and>
   new_calls world0 (act host0 (init_members (config0\<lparr>eigen := True\<rparr>)) ''add_kernel'' world0) =
     map tag_eigen (filter not_time_derivative
       (new_calls world0 (act host0 (init_members (config0\<lparr>eigen := False\<rparr>)) ''add_kernel'' world0)))"
proof -
  let ?a = "init_members config0"
  have n: "m_num_groups ?a \<noteq> - 1"
    by (simp add: init_members_def config0_def)
  have e: "?a\<lparr>parameters := (parameters ?a)\<lparr>eigen := False\<rparr>\<rparr> = init_members (config0\<lparr>eigen := False\<rparr>)"
      "?a\<lparr>parameters := (parameters ?a)\<lparr>eigen := True\<rparr>\<rparr> = init_members (config0\<lparr>eigen := True\<rparr>)"
    by (simp_all add: init_members_def)
  note t = eigen_drops_time_derivative[of world0 host0 ?a, unfolded e]
  note r = t[THEN conjunct1]
  note p = t[THEN conjunct2, rule_format, OF n]
  have k: "group_kernel_names (init_members (config0\<lparr>eigen := False\<rparr>)) v =
             [''NtTimeDerivative_'' @ v, ''GroupDiffusion_'' @ v, ''SigmaR_'' @ v,
              ''InScatter_'' @ v, ''CoupledFissionKernel_'' @ v, ''DelayedNeutronSource_'' @ v]"
      "group_kernel_names (init_members (config0\<lparr>eigen := True\<rparr>)) v =
             [''GroupDiffusion_'' @ v, ''SigmaR_'' @ v,
              ''InScatter_'' @ v, ''CoupledFissionKernel_'' @ v, ''DelayedNeutronSource_'' @ v]" for v
    by (simp_all add: group_kernel_names_def init_members_def config0_def)
  have m: "m_num_groups ?a = 2" "m_var_name_base ?a = ''group''"
    by (simp_all add: init_members_def config0_def)
  from p have
    "map call_name
       (new_calls world0 (act host0 (init_members (config0\<lparr>eigen := False\<rparr>)) ''add_kernel'' world0)) =
     concat (map (\<lambda>i. group_kernel_names (init_members (config0\<lparr>eigen := False\<rparr>))
                        (m_var_name_base ?a @ decimal i)) [1 ..< Suc (unat (m_num_groups ?a))])"
    "map call_name
       (new_calls world0 (act host0 (init_members (config0\<lparr>eigen := True\<rparr>)) ''add_kernel'' world0)) =
     concat (map (\<lambda>i. group_kernel_names (init_members (config0\<lparr>eigen := True\<rparr>))
                        (m_var_name_base ?a @ decimal i)) [1 ..< Suc (unat (m_num_groups ?a))])"
    "map call_name (filter (is_kernel ''NtTimeDerivative'')
       (new_calls world0 (act host0 (init_members (config0\<lparr>eigen := False\<rparr>)) ''add_kernel'' world0))) =
     map (\<lambda>i. ''NtTimeDerivative_'' @ m_var_name_base ?a @ decimal i)
       [1 ..< Suc (unat (m_num_groups ?a))]"
    by blast+
  then show ?thesis
    unfolding k m using n r
    by (simp add: upt_1_3 decimal_1_2)
qed

text \<open>
  C2 as stated fails: with one group, the run with \<open>eigen = true\<close> does not submit what
  the run with \<open>eigen = false\<close> submits less the time-derivative kernel, because the
  \<open>CoupledFissionKernel\<close> descriptors differ in \<open>extra_vector_tags\<close>.
\<close>

theorem eigen_drops_time_derivative_counterexample:
  "calls_of (act host0 (init_members (config0\<lparr>num_groups := 1, eigen := True\<rparr>)) ''add_kernel'' world0) \<noteq>
   filter not_time_derivative
     (calls_of (act host0 (init_members (config0\<lparr>num_groups := 1, eigen := False\<rparr>)) ''add_kernel'' world0))"
proof
  define tags where
    "tags = map (\<lambda>d. case d of Problem_addKernel k n ps \<Rightarrow> ps ''extra_vector_tags'' | _ \<Rightarrow> None)"
  let ?c1 = "config0\<lparr>num_groups := 1, eigen := True\<rparr>"
  let ?c0 = "config0\<lparr>num_groups := 1, eigen := False\<rparr>"
  assume "calls_of (act host0 (init_members ?c1) ''add_kernel'' world0) =
          filter not_time_derivative (calls_of (act host0 (init_members ?c0) ''add_kernel'' world0))"
  then have eq: "tags (calls_of (act host0 (init_members ?c1) ''add_kernel'' world0)) =
     tags (filter not_time_derivative (calls_of (act host0 (init_members ?c0) ''add_kernel'' world0)))"
    by simp
  have n: "m_num_groups (init_members ?c1) \<noteq> - 1" "m_num_groups (init_members ?c0) \<noteq> - 1"
    by (simp_all add: init_members_def)
  have i: "group_indices (init_members ?c1) = [Suc 0]" "group_indices (init_members ?c0) = [Suc 0]"
    by (rule indices_one, simp add: init_members_def)+
  have l: "tags (calls_of (act host0 (init_members ?c1) ''add_kernel'' world0)) =
      [None, None, Some (PNames [''eigen'']), None]"
    unfolding act_add_kernel[OF n(1)] i
    by (simp add: calls_of_def world0_def emitted_def kernel_defs tags_def init_members_facts)
       (simp add: config0_def host0_def applySpecificParameters_def action_param_def set_block_def)
  have r: "tags (filter not_time_derivative
        (calls_of (act host0 (init_members ?c0) ''add_kernel'' world0))) =
      [None, None, None, None]"
    unfolding act_add_kernel[OF n(2)] i
    by (simp add: calls_of_def world0_def emitted_def kernel_defs tags_def init_members_facts
          not_time_derivative_def is_kernel_def)
       (simp add: config0_def host0_def applySpecificParameters_def action_param_def set_block_def)
  from eq l r show False by simp
qed

section \<open>The constructor\<close>

text \<open>
  C4. Whatever the other parameters are, constructing the action with
  \<open>account_delayed = true\<close> and \<open>pre_concs\<close> unset raises the configuration error; with
  \<open>pre_concs\<close> supplied, or with \<open>account_delayed = false\<close>, construction yields the object,
  its three members copied from the parameters. The constructor has the parameters only:
  it submits nothing, and when it raises there is no object for a task to run on.
\<close>

theorem constructor_validation:
  "(account_delayed ps \<and> pre_concs ps = None \<longrightarrow> NtAction ps = Inl ConfigurationError) \<and>
   (\<not> (account_delayed ps \<and> pre_concs ps = None) \<longrightarrow> NtAction ps = Inr (init_members ps))"
  by (simp add: NtAction_def isParamValid_def)

text \<open>The three cases, on the two-group configuration.\<close>

theorem constructor_validation_witness:
  "NtAction (config0\<lparr>pre_concs := None\<rparr>) = Inl ConfigurationError \<and>
   NtAction config0 = Inr (init_members config0) \<and>
   NtAction (config0\<lparr>pre_concs := None, account_delayed := False\<rparr>) =
     Inr (init_members (config0\<lparr>pre_concs := None, account_delayed := False\<rparr>))"
  using constructor_validation[of "config0\<lparr>pre_concs := None\<rparr>"]
    constructor_validation[of config0]
    constructor_validation[of "config0\<lparr>pre_concs := None, account_delayed := False\<rparr>"]
  by (simp add: config0_def)

section \<open>Task \<open>add_bc\<close>\<close>

lemma group_body_add_bc:
  "group_body h a ''add_bc'' names op w =
     Inr (case vacuum_boundaries (parameters a) of
            None \<Rightarrow> w
          | Some bs \<Rightarrow> w\<lparr>submitted := submitted w @
              [Problem_addBoundaryCondition ''VacuumConcBC''
                 (''VacuumConcBC_'' @ m_var_name_base a @ stringify op)
                 ((getValidParams h ''VacuumConcBC'')
                    (''boundary'' \<mapsto> PNames bs,
                     ''variable'' \<mapsto> PName (m_var_name_base a @ stringify op),
                     ''use_exp_form'' \<mapsto> PBool (use_exp_form (parameters a)),
                     ''vacuum_bc_type'' \<mapsto> PVacuumBC (vacuum_bc_type (parameters a))))]\<rparr>)"
  by (simp add: body_defs submit_def split: option.splits)

text \<open>
  C8, as amended. For every action with \<open>_num_groups = N\<close> below \<open>2^32 - 1\<close>: if no
  \<open>vacuum_boundaries\<close> are supplied, the task \<open>add_bc\<close> submits nothing; if a list is
  supplied (empty or not), it submits exactly one \<open>VacuumConcBC\<close> for each group
  \<open>1, \<dots>, N\<close> in order, on that list of boundaries, for the group's variable, and of the
  chosen \<open>vacuum_bc_type\<close>, which is one of three distinct variants.
\<close>

theorem vacuum_bc_per_group:
  assumes "m_num_groups a \<noteq> - 1"
  shows "(vacuum_boundaries (parameters a) = None \<longrightarrow> act h a ''add_bc'' w = Some (Inr w)) \<and>
         (\<forall>bs. vacuum_boundaries (parameters a) = Some bs \<longrightarrow>
            act h a ''add_bc'' w =
              Some (Inr (w\<lparr>submitted := submitted w @
                map (\<lambda>i. Problem_addBoundaryCondition ''VacuumConcBC''
                       (''VacuumConcBC_'' @ m_var_name_base a @ decimal i)
                       ((getValidParams h ''VacuumConcBC'')
                          (''boundary'' \<mapsto> PNames bs,
                           ''variable'' \<mapsto> PName (m_var_name_base a @ decimal i),
                           ''use_exp_form'' \<mapsto> PBool (use_exp_form (parameters a)),
                           ''vacuum_bc_type'' \<mapsto> PVacuumBC (vacuum_bc_type (parameters a)))))
                  [1 ..< Suc (unat (m_num_groups a))]\<rparr>))) \<and>
         vacuum_bc_type (parameters a) \<in> {marshak, mark, milne} \<and>
         distinct [marshak, mark, milne]"
proof -
  have t: "temperature_block h a ''add_bc'' w' = w'" for w'
    by (simp add: temperature_block_other)
  have none: "act h a ''add_bc'' w = Some (Inr w)" if "vacuum_boundaries (parameters a) = None"
  proof -
    have "run_groups (group_body h a ''add_bc'' (group_names a)) (group_indices a) w = Inr w"
      by (rule run_groups_id) (simp add: group_body_add_bc that)
    then show ?thesis by (simp add: act_returns[OF assms] t)
  qed
  have some: "act h a ''add_bc'' w =
              Some (Inr (w\<lparr>submitted := submitted w @
                map (\<lambda>i. Problem_addBoundaryCondition ''VacuumConcBC''
                       (''VacuumConcBC_'' @ m_var_name_base a @ decimal i)
                       ((getValidParams h ''VacuumConcBC'')
                          (''boundary'' \<mapsto> PNames bs,
                           ''variable'' \<mapsto> PName (m_var_name_base a @ decimal i),
                           ''use_exp_form'' \<mapsto> PBool (use_exp_form (parameters a)),
                           ''vacuum_bc_type'' \<mapsto> PVacuumBC (vacuum_bc_type (parameters a)))))
                  (group_indices a)\<rparr>))"
    if "vacuum_boundaries (parameters a) = Some bs" for bs
  proof -
    have "run_groups (group_body h a ''add_bc'' (group_names a)) (group_indices a) w =
          Inr (w\<lparr>submitted := submitted w @ concat (map (\<lambda>i.
                 [Problem_addBoundaryCondition ''VacuumConcBC''
                       (''VacuumConcBC_'' @ m_var_name_base a @ decimal i)
                       ((getValidParams h ''VacuumConcBC'')
                          (''boundary'' \<mapsto> PNames bs,
                           ''variable'' \<mapsto> PName (m_var_name_base a @ decimal i),
                           ''use_exp_form'' \<mapsto> PBool (use_exp_form (parameters a)),
                           ''vacuum_bc_type'' \<mapsto> PVacuumBC (vacuum_bc_type (parameters a))))])
                 (group_indices a))\<rparr>)"
      by (rule run_groups_append) (simp add: group_body_add_bc that stringify_of_nat)
    then show ?thesis by (simp add: act_returns[OF assms] t)
  qed
  have v: "vacuum_bc_type (parameters a) \<in> {marshak, mark, milne}"
    by (cases "vacuum_bc_type (parameters a)") simp_all
  from none some v show ?thesis
    by (simp add: group_indices_def del: upt_Suc)
qed

text \<open>Two groups on two boundaries; and the same with no boundary list.\<close>

theorem vacuum_bc_per_group_witness:
  "m_num_groups (init_members config0) \<noteq> - 1 \<and>
   act host0 (init_members config0) ''add_bc'' world0 =
     Some (Inr (world0\<lparr>submitted :=
       [Problem_addBoundaryCondition ''VacuumConcBC'' ''VacuumConcBC_group1''
          [''boundary'' \<mapsto> PNames [''fuel_bottoms'', ''fuel_tops''],
           ''variable'' \<mapsto> PName ''group1'', ''use_exp_form'' \<mapsto> PBool False,
           ''vacuum_bc_type'' \<mapsto> PVacuumBC marshak],
        Problem_addBoundaryCondition ''VacuumConcBC'' ''VacuumConcBC_group2''
          [''boundary'' \<mapsto> PNames [''fuel_bottoms'', ''fuel_tops''],
           ''variable'' \<mapsto> PName ''group2'', ''use_exp_form'' \<mapsto> PBool False,
           ''vacuum_bc_type'' \<mapsto> PVacuumBC marshak]]\<rparr>)) \<and>
   act host0 (init_members (config0\<lparr>vacuum_boundaries := None\<rparr>)) ''add_bc'' world0 =
     Some (Inr world0)"
proof -
  have n: "m_num_groups (init_members config0) \<noteq> - 1"
     "m_num_groups (init_members (config0\<lparr>vacuum_boundaries := None\<rparr>)) \<noteq> - 1"
    by (simp_all add: init_members_def config0_def)
  show ?thesis
    using vacuum_bc_per_group[OF n(1), of host0 world0]
      vacuum_bc_per_group[OF n(2), of host0 world0] n(1)
    by (simp add: init_members_def config0_def host0_def world0_def upt_1_3 decimal_1_2)
qed

text \<open>
  C8 as stated (a boundary condition for every group) fails for \<open>num_groups = 2^32 - 1\<close>
  with boundaries supplied: the run does not return.
\<close>

theorem vacuum_bc_per_group_counterexample:
  "act host0 (init_members (config0\<lparr>num_groups := 4294967295\<rparr>)) ''add_bc'' world0 = None"
  by (rule act_diverges) (simp add: init_members_def)

section \<open>Task \<open>add_ic\<close>\<close>

lemma group_body_add_ic_restart:
  "init_nts_from_file (parameters a) \<Longrightarrow> group_body h a ''add_ic'' names op w = Inr w"
  by (simp add: body_defs)

lemma act_add_ic_restart:
  assumes "m_num_groups a \<noteq> - 1" "init_nts_from_file (parameters a)"
  shows "act h a ''add_ic'' w = Some (Inr w)"
proof -
  have "run_groups (group_body h a ''add_ic'' (group_names a)) (group_indices a) w = Inr w"
    by (rule run_groups_id) (simp add: group_body_add_ic_restart assms(2))
  then show ?thesis by (simp add: act_returns[OF assms(1)] temperature_block_other)
qed

text \<open>
  C10. With \<open>init_nts_from_file = true\<close>, the task \<open>add_ic\<close> with \<open>jac_test\<close> and
  \<open>nt_ic_function\<close> both set never raises and submits nothing: whenever it returns, it
  returns the world unchanged, and it returns for every \<open>_num_groups\<close> below \<open>2^32 - 1\<close>.
\<close>

theorem restart_skips_ic_validation:
  assumes "init_nts_from_file (parameters a)" "jac_test (parameters a)"
    "nt_ic_function (parameters a) \<noteq> None"
  shows "(\<forall>r. act h a ''add_ic'' w = Some r \<longrightarrow> r = Inr w) \<and>
         (m_num_groups a \<noteq> - 1 \<longrightarrow> act h a ''add_ic'' w = Some (Inr w))"
proof (cases "m_num_groups a = - 1")
  case True
  then show ?thesis by (simp add: act_diverges)
next
  case False
  then show ?thesis by (simp add: act_add_ic_restart assms(1))
qed

text \<open>The conflicting options pass silently when the neutron fields are restarted.\<close>

theorem restart_skips_ic_validation_witness:
  "init_nts_from_file (parameters (init_members (config0\<lparr>init_nts_from_file := True, jac_test := True,
       nt_ic_function := Some ''nt_ic_func''\<rparr>))) \<and>
   act host0 (init_members (config0\<lparr>init_nts_from_file := True, jac_test := True,
       nt_ic_function := Some ''nt_ic_func''\<rparr>)) ''add_ic'' world0 = Some (Inr world0)"
proof -
  let ?a = "init_members (config0\<lparr>init_nts_from_file := True, jac_test := True,
       nt_ic_function := Some ''nt_ic_func''\<rparr>)"
  have p: "init_nts_from_file (parameters ?a)" "jac_test (parameters ?a)"
      "nt_ic_function (parameters ?a) \<noteq> None"
    by (simp_all add: init_members_def)
  have n: "m_num_groups ?a \<noteq> - 1"
    by (simp add: init_members_def config0_def)
  from restart_skips_ic_validation[OF p, of host0 world0]
  have "m_num_groups ?a \<noteq> - 1 \<longrightarrow> act host0 ?a ''add_ic'' world0 = Some (Inr world0)"
    by (rule conjunct2)
  with n p(1) show ?thesis by simp
qed

lemma group_body_add_ic_conflict:
  assumes "jac_test (parameters a)" "nt_ic_function (parameters a) \<noteq> None"
    "\<not> init_nts_from_file (parameters a)"
  shows "group_body h a ''add_ic'' names op w = Inl (ConflictingOptionError, w)"
  using assms by (simp add: body_defs isParamValid_def)

text \<open>
  C5, as amended. For every action with \<open>jac_test = true\<close> and \<open>nt_ic_function\<close> set that
  does not restart the neutron fields from file and has \<open>1 \<le> _num_groups < 2^32 - 1\<close>,
  the task \<open>add_ic\<close> raises the conflicting-option error in the pass for the first group,
  with the world as it was: no descriptor has been submitted.
\<close>

theorem conflicting_ic_options:
  assumes "jac_test (parameters a)" "nt_ic_function (parameters a) \<noteq> None"
    "\<not> init_nts_from_file (parameters a)" "m_num_groups a \<noteq> 0" "m_num_groups a \<noteq> - 1"
  shows "act h a ''add_ic'' w = Some (Inl (ConflictingOptionError, w))"
  by (simp add: act_returns[OF assms(5)] indices_Cons[OF assms(4)]
        group_body_add_ic_conflict[OF assms(1-3)])

text \<open>The two-group configuration with both options set.\<close>

theorem conflicting_ic_options_witness:
  "jac_test (config0\<lparr>jac_test := True, nt_ic_function := Some ''nt_ic_func''\<rparr>) \<and>
   act host0 (init_members (config0\<lparr>jac_test := True, nt_ic_function := Some ''nt_ic_func''\<rparr>))
     ''add_ic'' world0 = Some (Inl (ConflictingOptionError, world0)) \<and>
   submitted world0 = []"
proof -
  let ?a = "init_members (config0\<lparr>jac_test := True, nt_ic_function := Some ''nt_ic_func''\<rparr>)"
  have p: "jac_test (parameters ?a)" "nt_ic_function (parameters ?a) \<noteq> None"
      "\<not> init_nts_from_file (parameters ?a)" "m_num_groups ?a \<noteq> 0" "m_num_groups ?a \<noteq> - 1"
    by (simp_all add: init_members_def config0_def)
  from conflicting_ic_options[OF p, of host0 world0] show ?thesis
    by (simp add: world0_def)
qed

text \<open>
  C5 as stated fails three ways with both options set: restarting from file, the check is
  skipped and the task returns normally; with no group the loop body, where the check
  stands, is never entered; and with \<open>num_groups = 2^32 - 1\<close> the run does not return.
\<close>

theorem conflicting_ic_options_counterexample:
  "act host0 (init_members (config0\<lparr>jac_test := True, nt_ic_function := Some ''nt_ic_func'',
       init_nts_from_file := True\<rparr>)) ''add_ic'' world0 = Some (Inr world0) \<and>
   act host0 (init_members (config0\<lparr>jac_test := True, nt_ic_function := Some ''nt_ic_func'',
       num_groups := 0\<rparr>)) ''add_ic'' world0 = Some (Inr world0) \<and>
   act host0 (init_members (config0\<lparr>jac_test := True, nt_ic_function := Some ''nt_ic_func'',
       num_groups := 4294967295\<rparr>)) ''add_ic'' world0 = None"
proof -
  have "act host0 (init_members (config0\<lparr>jac_test := True, nt_ic_function := Some ''nt_ic_func'',
       init_nts_from_file := True\<rparr>)) ''add_ic'' world0 = Some (Inr world0)"
    by (rule act_add_ic_restart) (simp_all add: init_members_def config0_def)
  moreover have "act host0 (init_members (config0\<lparr>jac_test := True,
       nt_ic_function := Some ''nt_ic_func'', num_groups := 0\<rparr>)) ''add_ic'' world0 = Some (Inr world0)"
    by (subst act_returns) (simp_all add: init_members_def group_indices_def temperature_block_other)
  moreover have "act host0 (init_members (config0\<lparr>jac_test := True,
       nt_ic_function := Some ''nt_ic_func'', num_groups := 4294967295\<rparr>)) ''add_ic'' world0 = None"
    by (rule act_diverges) (simp add: init_members_def)
  ultimately show ?thesis by simp
qed

lemmas ic_defs = ic_block_def ic_params_def chosen_ic_def submit_def set_block_def
  isParamValid_def Let_def

lemma ic_block_emits:
  assumes "\<not> init_nts_from_file (parameters a)"
    "\<not> (jac_test (parameters a) \<and> nt_ic_function (parameters a) \<noteq> None)"
  shows "ic_block h a ''add_ic'' v w =
           Inr (w\<lparr>submitted := submitted w @
              [Problem_addInitialCondition (chosen_ic (parameters a))
                 (chosen_ic (parameters a) @ ''_'' @ v) (ic_params h a v)]\<rparr>)"
    and "ic_params h a v ''variable'' = Some (PName v)"
    and "chosen_ic (parameters a) = ''ConstantIC'' \<Longrightarrow>
           ic_params h a v ''value'' = Some (PReal (if use_exp_form (parameters a) then 0 else 1))"
  using assms by (auto simp: ic_defs split: option.splits)

lemma group_body_add_ic:
  "group_body h a ''add_ic'' names op w = ic_block h a ''add_ic'' (m_var_name_base a @ stringify op) w"
  by (simp add: group_body_def restart_block_def variable_block_def kernel_block_def bc_block_def
        aux_block_def Let_def split: sum.splits)

text \<open>
  C6, as amended. For every action with \<open>_num_groups = N\<close> below \<open>2^32 - 1\<close>: when
  restarting the neutron fields from file, \<open>add_ic\<close> submits nothing; otherwise, unless
  \<open>jac_test\<close> and \<open>nt_ic_function\<close> are both set, it submits exactly one initial condition
  for each group \<open>1, \<dots>, N\<close> in order, for the group's variable, of the kind \<open>RandomIC\<close> if
  \<open>jac_test\<close>, else \<open>FunctionIC\<close> if \<open>nt_ic_function\<close> is set, else \<open>ConstantIC\<close>, whose
  value is 0 with \<open>use_exp_form\<close> and 1 without.
\<close>

theorem initial_condition_per_group:
  assumes "m_num_groups a \<noteq> - 1"
  shows "(init_nts_from_file (parameters a) \<longrightarrow> act h a ''add_ic'' w = Some (Inr w)) \<and>
         (\<not> init_nts_from_file (parameters a) \<and>
          \<not> (jac_test (parameters a) \<and> nt_ic_function (parameters a) \<noteq> None) \<longrightarrow>
          act h a ''add_ic'' w =
            Some (Inr (w\<lparr>submitted := submitted w @
              map (\<lambda>i. Problem_addInitialCondition (chosen_ic (parameters a))
                     (chosen_ic (parameters a) @ ''_'' @ m_var_name_base a @ decimal i)
                     (ic_params h a (m_var_name_base a @ decimal i)))
                [1 ..< Suc (unat (m_num_groups a))]\<rparr>)) \<and>
          (\<forall>v. ic_params h a v ''variable'' = Some (PName v) \<and>
               (chosen_ic (parameters a) = ''ConstantIC'' \<longrightarrow>
                  ic_params h a v ''value'' =
                    Some (PReal (if use_exp_form (parameters a) then 0 else 1)))))"
proof (intro conjI impI)
  assume "init_nts_from_file (parameters a)"
  with assms show "act h a ''add_ic'' w = Some (Inr w)" by (rule act_add_ic_restart)
next
  let ?k = "chosen_ic (parameters a)"
  assume c: "\<not> init_nts_from_file (parameters a) \<and>
          \<not> (jac_test (parameters a) \<and> nt_ic_function (parameters a) \<noteq> None)"
  note Q = ic_block_emits[OF conjunct1[OF c] conjunct2[OF c], of h]
  have "run_groups (group_body h a ''add_ic'' (group_names a)) (group_indices a) w =
        Inr (w\<lparr>submitted := submitted w @ concat (map (\<lambda>i.
          [Problem_addInitialCondition ?k (?k @ ''_'' @ m_var_name_base a @ decimal i)
             (ic_params h a (m_var_name_base a @ decimal i))])
          (group_indices a))\<rparr>)"
    by (rule run_groups_append) (simp add: group_body_add_ic Q(1) stringify_of_nat)
  then show "act h a ''add_ic'' w =
            Some (Inr (w\<lparr>submitted := submitted w @
              map (\<lambda>i. Problem_addInitialCondition ?k
                     (?k @ ''_'' @ m_var_name_base a @ decimal i)
                     (ic_params h a (m_var_name_base a @ decimal i)))
                [1 ..< Suc (unat (m_num_groups a))]\<rparr>))"
    by (simp add: act_returns[OF assms] temperature_block_other group_indices_def del: upt_Suc)
  show "\<forall>v. ic_params h a v ''variable'' = Some (PName v) \<and>
               (?k = ''ConstantIC'' \<longrightarrow>
                  ic_params h a v ''value'' =
                    Some (PReal (if use_exp_form (parameters a) then 0 else 1)))"
    using Q(2,3) by simp
qed

text \<open>Constant initial conditions of value 1 for the two groups; none when restarting.\<close>

theorem initial_condition_per_group_witness:
  "m_num_groups (init_members config0) \<noteq> - 1 \<and>
   act host0 (init_members config0) ''add_ic'' world0 =
     Some (Inr (world0\<lparr>submitted :=
       [Problem_addInitialCondition ''ConstantIC'' ''ConstantIC_group1''
          [''variable'' \<mapsto> PName ''group1'', ''value'' \<mapsto> PReal 1],
        Problem_addInitialCondition ''ConstantIC'' ''ConstantIC_group2''
          [''variable'' \<mapsto> PName ''group2'', ''value'' \<mapsto> PReal 1]]\<rparr>)) \<and>
   act host0 (init_members (config0\<lparr>init_nts_from_file := True\<rparr>)) ''add_ic'' world0 =
     Some (Inr world0)"
proof -
  let ?a = "init_members config0" and ?r = "init_members (config0\<lparr>init_nts_from_file := True\<rparr>)"
  have n: "m_num_groups ?a \<noteq> - 1" "m_num_groups ?r \<noteq> - 1"
    by (simp_all add: init_members_def config0_def)
  have c: "\<not> init_nts_from_file (parameters ?a) \<and>
           \<not> (jac_test (parameters ?a) \<and> nt_ic_function (parameters ?a) \<noteq> None)"
    by (simp add: init_members_def config0_def)
  have k: "chosen_ic (parameters ?a) = ''ConstantIC''"
    by (simp add: chosen_ic_def init_members_def config0_def)
  have p: "ic_params host0 ?a v = [''variable'' \<mapsto> PName v, ''value'' \<mapsto> PReal 1]" for v
    by (simp add: ic_defs init_members_def config0_def host0_def)
  from initial_condition_per_group[OF n(1), of host0 world0] c
  have "act host0 ?a ''add_ic'' world0 =
            Some (Inr (world0\<lparr>submitted := submitted world0 @
              map (\<lambda>i. Problem_addInitialCondition (chosen_ic (parameters ?a))
                     (chosen_ic (parameters ?a) @ ''_'' @ m_var_name_base ?a @ decimal i)
                     (ic_params host0 ?a (m_var_name_base ?a @ decimal i)))
                [1 ..< Suc (unat (m_num_groups ?a))]\<rparr>))"
    by blast
  moreover from initial_condition_per_group[OF n(2), of host0 world0]
  have "act host0 ?r ''add_ic'' world0 = Some (Inr world0)"
    by (simp add: init_members_def)
  ultimately show ?thesis
    using n(1) unfolding k p
    by (simp add: init_members_def config0_def world0_def upt_1_3 decimal_1_2)
qed

text \<open>
  C6 as stated fails when \<open>jac_test\<close> and \<open>nt_ic_function\<close> are both set without restart:
  no random initial condition is submitted for the two groups, the task raises instead.
\<close>

theorem initial_condition_per_group_counterexample:
  "\<not> init_nts_from_file (config0\<lparr>jac_test := True, nt_ic_function := Some ''nt_ic_func''\<rparr>) \<and>
   jac_test (config0\<lparr>jac_test := True, nt_ic_function := Some ''nt_ic_func''\<rparr>) \<and>
   act host0 (init_members (config0\<lparr>jac_test := True, nt_ic_function := Some ''nt_ic_func''\<rparr>))
     ''add_ic'' world0 = Some (Inl (ConflictingOptionError, world0))"
proof -
  let ?a = "init_members (config0\<lparr>jac_test := True, nt_ic_function := Some ''nt_ic_func''\<rparr>)"
  have p: "jac_test (parameters ?a)" "nt_ic_function (parameters ?a) \<noteq> None"
      "\<not> init_nts_from_file (parameters ?a)"
    by (simp_all add: init_members_def config0_def)
  have n: "m_num_groups ?a \<noteq> 0" "m_num_groups ?a \<noteq> - 1"
    by (simp_all add: init_members_def config0_def)
  have "act host0 ?a ''add_ic'' world0 = Some (Inl (ConflictingOptionError, world0))"
    by (simp add: act_returns[OF n(2)] indices_Cons[OF n(1)] group_body_add_ic_conflict[OF p])
  then show ?thesis by (simp add: config0_def)
qed

section \<open>Tasks \<open>add_aux_variable\<close> and \<open>add_aux_kernel\<close>\<close>

lemma group_body_add_aux_variable:
  "group_body h a ''add_aux_variable'' names op w =
     Inr (if use_exp_form (parameters a)
          then w\<lparr>submitted := submitted w @
                 [Problem_addAuxVariable (m_var_name_base a @ stringify op @ ''_lin'')
                    (FEType FIRST LAGRANGE)
                    (if getSubdomainIDs h (block (parameters a)) = {} then None
                     else Some (getSubdomainIDs h (block (parameters a))))]\<rparr>
          else w)"
  by (simp add: body_defs submit_def)

lemma group_body_add_aux_kernel:
  "group_body h a ''add_aux_kernel'' names op w =
     Inr (if use_exp_form (parameters a)
          then w\<lparr>submitted := submitted w @
                 [Problem_addAuxKernel ''Density''
                    (''Density_'' @ m_var_name_base a @ stringify op @ ''_lin'')
                    (set_block (block (parameters a))
                       ((getValidParams h ''Density'')
                          (''variable'' \<mapsto> PName (m_var_name_base a @ stringify op @ ''_lin''),
                           ''density_log'' \<mapsto> PNames [m_var_name_base a @ stringify op])))]\<rparr>
          else w)"
  by (simp add: body_defs submit_def)

lemma act_aux_no_exp_form:
  assumes "\<not> use_exp_form (parameters a)" "m_num_groups a \<noteq> - 1"
  shows "act h a ''add_aux_variable'' w = Some (Inr w)"
    and "act h a ''add_aux_kernel'' w = Some (Inr w)"
proof -
  have "run_groups (group_body h a ''add_aux_variable'' (group_names a)) (group_indices a) w = Inr w"
    by (rule run_groups_id) (simp add: group_body_add_aux_variable assms(1))
  then show "act h a ''add_aux_variable'' w = Some (Inr w)"
    by (simp add: act_returns[OF assms(2)] temperature_block_other)
  have "run_groups (group_body h a ''add_aux_kernel'' (group_names a)) (group_indices a) w = Inr w"
    by (rule run_groups_id) (simp add: group_body_add_aux_kernel assms(1))
  then show "act h a ''add_aux_kernel'' w = Some (Inr w)"
    by (simp add: act_returns[OF assms(2)] temperature_block_other)
qed

text \<open>
  C7. With \<open>use_exp_form = true\<close> and two groups, \<open>add_aux_variable\<close> submits exactly two
  auxiliary variables and \<open>add_aux_kernel\<close> exactly two \<open>Density\<close> kernels, the auxiliary
  field of group \<open>i\<close> being named after the group's variable with \<open>_lin\<close> appended. With
  \<open>use_exp_form = false\<close> neither task submits anything: whenever it returns, the world is
  unchanged, and it returns for every \<open>_num_groups\<close> below \<open>2^32 - 1\<close>.
\<close>

theorem aux_objects_two_groups:
  "(use_exp_form (parameters a) \<and> m_num_groups a = 2 \<longrightarrow>
      act h a ''add_aux_variable'' w =
        Some (Inr (w\<lparr>submitted := submitted w @
          [Problem_addAuxVariable (m_var_name_base a @ ''1'' @ ''_lin'') (FEType FIRST LAGRANGE)
             (if getSubdomainIDs h (block (parameters a)) = {} then None
              else Some (getSubdomainIDs h (block (parameters a)))),
           Problem_addAuxVariable (m_var_name_base a @ ''2'' @ ''_lin'') (FEType FIRST LAGRANGE)
             (if getSubdomainIDs h (block (parameters a)) = {} then None
              else Some (getSubdomainIDs h (block (parameters a))))]\<rparr>)) \<and>
      act h a ''add_aux_kernel'' w =
        Some (Inr (w\<lparr>submitted := submitted w @
          [Problem_addAuxKernel ''Density'' (''Density_'' @ m_var_name_base a @ ''1'' @ ''_lin'')
             (set_block (block (parameters a))
                ((getValidParams h ''Density'')
                   (''variable'' \<mapsto> PName (m_var_name_base a @ ''1'' @ ''_lin''),
                    ''density_log'' \<mapsto> PNames [m_var_name_base a @ ''1'']))),
           Problem_addAuxKernel ''Density'' (''Density_'' @ m_var_name_base a @ ''2'' @ ''_lin'')
             (set_block (block (parameters a))
                ((getValidParams h ''Density'')
                   (''variable'' \<mapsto> PName (m_var_name_base a @ ''2'' @ ''_lin''),
                    ''density_log'' \<mapsto> PNames [m_var_name_base a @ ''2''])))]\<rparr>))) \<and>
   (\<not> use_exp_form (parameters a) \<longrightarrow>
      (\<forall>r. act h a ''add_aux_variable'' w = Some r \<longrightarrow> r = Inr w) \<and>
      (\<forall>r. act h a ''add_aux_kernel'' w = Some r \<longrightarrow> r = Inr w) \<and>
      (m_num_groups a \<noteq> - 1 \<longrightarrow>
         act h a ''add_aux_variable'' w = Some (Inr w) \<and>
         act h a ''add_aux_kernel'' w = Some (Inr w)))"
proof (intro conjI impI)
  assume e: "use_exp_form (parameters a) \<and> m_num_groups a = 2"
  then have n: "m_num_groups a \<noteq> - 1" by simp
  have i: "group_indices a = [Suc 0, 2]" using e by (simp add: indices_two)
  show "act h a ''add_aux_variable'' w =
        Some (Inr (w\<lparr>submitted := submitted w @
          [Problem_addAuxVariable (m_var_name_base a @ ''1'' @ ''_lin'') (FEType FIRST LAGRANGE)
             (if getSubdomainIDs h (block (parameters a)) = {} then None
              else Some (getSubdomainIDs h (block (parameters a)))),
           Problem_addAuxVariable (m_var_name_base a @ ''2'' @ ''_lin'') (FEType FIRST LAGRANGE)
             (if getSubdomainIDs h (block (parameters a)) = {} then None
              else Some (getSubdomainIDs h (block (parameters a))))]\<rparr>))"
    using e unfolding act_returns[OF n] i
    by (simp add: group_body_add_aux_variable stringify_1_2 temperature_block_other)
  show "act h a ''add_aux_kernel'' w =
        Some (Inr (w\<lparr>submitted := submitted w @
          [Problem_addAuxKernel ''Density'' (''Density_'' @ m_var_name_base a @ ''1'' @ ''_lin'')
             (set_block (block (parameters a))
                ((getValidParams h ''Density'')
                   (''variable'' \<mapsto> PName (m_var_name_base a @ ''1'' @ ''_lin''),
                    ''density_log'' \<mapsto> PNames [m_var_name_base a @ ''1'']))),
           Problem_addAuxKernel ''Density'' (''Density_'' @ m_var_name_base a @ ''2'' @ ''_lin'')
             (set_block (block (parameters a))
                ((getValidParams h ''Density'')
                   (''variable'' \<mapsto> PName (m_var_name_base a @ ''2'' @ ''_lin''),
                    ''density_log'' \<mapsto> PNames [m_var_name_base a @ ''2''])))]\<rparr>))"
    using e unfolding act_returns[OF n] i
    by (simp add: group_body_add_aux_kernel stringify_1_2 temperature_block_other)
next
  assume e: "\<not> use_exp_form (parameters a)"
  show "\<forall>r. act h a ''add_aux_variable'' w = Some r \<longrightarrow> r = Inr w"
    by (cases "m_num_groups a = - 1") (simp_all add: act_diverges act_aux_no_exp_form[OF e])
  show "\<forall>r. act h a ''add_aux_kernel'' w = Some r \<longrightarrow> r = Inr w"
    by (cases "m_num_groups a = - 1") (simp_all add: act_diverges act_aux_no_exp_form[OF e])
  assume n: "m_num_groups a \<noteq> - 1"
  show "act h a ''add_aux_variable'' w = Some (Inr w)" "act h a ''add_aux_kernel'' w = Some (Inr w)"
    by (rule act_aux_no_exp_form[OF e n])+
qed

text \<open>The two-group configuration, in exponential form and not.\<close>

theorem aux_objects_two_groups_witness:
  "act host0 (init_members (config0\<lparr>use_exp_form := True\<rparr>)) ''add_aux_variable'' world0 =
     Some (Inr (world0\<lparr>submitted :=
       [Problem_addAuxVariable ''group1_lin'' (FEType FIRST LAGRANGE) None,
        Problem_addAuxVariable ''group2_lin'' (FEType FIRST LAGRANGE) None]\<rparr>)) \<and>
   act host0 (init_members (config0\<lparr>use_exp_form := True\<rparr>)) ''add_aux_kernel'' world0 =
     Some (Inr (world0\<lparr>submitted :=
       [Problem_addAuxKernel ''Density'' ''Density_group1_lin''
          [''variable'' \<mapsto> PName ''group1_lin'', ''density_log'' \<mapsto> PNames [''group1'']],
        Problem_addAuxKernel ''Density'' ''Density_group2_lin''
          [''variable'' \<mapsto> PName ''group2_lin'', ''density_log'' \<mapsto> PNames [''group2'']]]\<rparr>)) \<and>
   act host0 (init_members config0) ''add_aux_variable'' world0 = Some (Inr world0) \<and>
   act host0 (init_members config0) ''add_aux_kernel'' world0 = Some (Inr world0)"
proof -
  let ?e = "init_members (config0\<lparr>use_exp_form := True\<rparr>)" and ?a = "init_members config0"
  have e: "use_exp_form (parameters ?e) \<and> m_num_groups ?e = 2"
    by (simp add: init_members_def config0_def)
  have a: "\<not> use_exp_form (parameters ?a)" "m_num_groups ?a \<noteq> - 1"
    by (simp_all add: init_members_def config0_def)
  note t = aux_objects_two_groups[of ?e host0 world0, THEN conjunct1, rule_format, OF e]
  note f = aux_objects_two_groups[of ?a host0 world0, THEN conjunct2, rule_format, OF a(1),
      THEN conjunct2, THEN conjunct2, rule_format, OF a(2)]
  from t f show ?thesis
    by (simp add: init_members_def config0_def host0_def world0_def set_block_def)
qed

section \<open>Task \<open>check_copy_nodal_vars\<close>\<close>

lemma group_body_check_restart:
  "group_body h a ''check_copy_nodal_vars'' names op w =
     Inr (if init_nts_from_file (parameters a) then w\<lparr>exodus_file_restart := True\<rparr> else w)"
  by (simp add: body_defs setExodusFileRestart_def)

lemma temperature_block_check_restart:
  "temperature_block h a ''check_copy_nodal_vars'' w =
     (if create_temperature_var (parameters a) \<and> init_temperature_from_file (parameters a)
      then w\<lparr>exodus_file_restart := True\<rparr> else w)"
  by (simp add: temperature_block_def setExodusFileRestart_def Let_def)

lemma act_check_restart:
  assumes "m_num_groups a \<noteq> - 1"
  shows "act h a ''check_copy_nodal_vars'' w =
           Some (Inr (if signals_restart a then w\<lparr>exodus_file_restart := True\<rparr> else w))"
  by (simp add: act_returns[OF assms] run_groups_flag[OF group_body_check_restart]
        temperature_block_check_restart indices_Nil signals_restart_def)

text \<open>
  C9, as amended. For every action with \<open>_num_groups\<close> below \<open>2^32 - 1\<close>, the restart check
  returns; it sets the restart flag if and only if \<open>init_nts_from_file\<close> is set and there
  is at least one group, or \<open>init_temperature_from_file\<close> is set and the temperature
  variable is created; it submits nothing; and running it again on the world it left
  leaves that world as it is.
\<close>

theorem restart_check:
  assumes "m_num_groups a \<noteq> - 1"
  shows "\<exists>w'. act h a ''check_copy_nodal_vars'' w = Some (Inr w') \<and>
              w' = (if signals_restart a then w\<lparr>exodus_file_restart := True\<rparr> else w) \<and>
              submitted w' = submitted w \<and>
              act h a ''check_copy_nodal_vars'' w' = Some (Inr w')"
  by (simp add: act_check_restart[OF assms])

text \<open>Restarting the neutron fields sets the flag, once and for all; restarting nothing does not.\<close>

theorem restart_check_witness:
  "m_num_groups (init_members (config0\<lparr>init_nts_from_file := True\<rparr>)) \<noteq> - 1 \<and>
   act host0 (init_members (config0\<lparr>init_nts_from_file := True\<rparr>)) ''check_copy_nodal_vars'' world0 =
     Some (Inr \<lparr>submitted = [], exodus_file_restart = True\<rparr>) \<and>
   act host0 (init_members (config0\<lparr>init_nts_from_file := True\<rparr>)) ''check_copy_nodal_vars''
     \<lparr>submitted = [], exodus_file_restart = True\<rparr> =
     Some (Inr \<lparr>submitted = [], exodus_file_restart = True\<rparr>) \<and>
   act host0 (init_members config0) ''check_copy_nodal_vars'' world0 = Some (Inr world0)"
proof -
  let ?r = "init_members (config0\<lparr>init_nts_from_file := True\<rparr>)" and ?a = "init_members config0"
  have n: "m_num_groups ?r \<noteq> - 1" "m_num_groups ?a \<noteq> - 1"
    by (simp_all add: init_members_def config0_def)
  have s: "signals_restart ?r" "\<not> signals_restart ?a"
    by (simp_all add: signals_restart_def init_members_def config0_def)
  from restart_check[OF n(1), of host0 world0] restart_check[OF n(2), of host0 world0] n(1) s
  show ?thesis
    by (simp add: world0_def)
qed

text \<open>
  C9 as stated fails: a temperature restart without \<open>create_temperature_var\<close>, and a
  neutron-field restart with no group, each have a restore-from-file flag set and leave
  the restart flag unset.
\<close>

theorem restart_check_counterexample:
  "init_temperature_from_file
     (config0\<lparr>init_temperature_from_file := True, create_temperature_var := False\<rparr>) \<and>
   act host0
     (init_members (config0\<lparr>init_temperature_from_file := True, create_temperature_var := False\<rparr>))
     ''check_copy_nodal_vars'' world0 = Some (Inr world0) \<and>
   exodus_file_restart world0 = False \<and>
   init_nts_from_file
     (config0\<lparr>init_nts_from_file := True, create_temperature_var := False, num_groups := 0\<rparr>) \<and>
   act host0
     (init_members (config0\<lparr>init_nts_from_file := True, create_temperature_var := False,
        num_groups := 0\<rparr>))
     ''check_copy_nodal_vars'' world0 = Some (Inr world0)"
proof -
  let ?t = "init_members (config0\<lparr>init_temperature_from_file := True, create_temperature_var := False\<rparr>)"
  let ?z = "init_members (config0\<lparr>init_nts_from_file := True, create_temperature_var := False,
        num_groups := 0\<rparr>)"
  have n: "m_num_groups ?t \<noteq> - 1" "m_num_groups ?z \<noteq> - 1"
    by (simp_all add: init_members_def config0_def)
  have s: "\<not> signals_restart ?t" "\<not> signals_restart ?z"
    by (simp_all add: signals_restart_def init_members_def config0_def)
  show ?thesis
    by (simp add: act_check_restart[OF n(1)] act_check_restart[OF n(2)] s world0_def)
qed

end
